theory Spec2Isabelle
  imports Main "HOL-Library.AList"
begin

section \<open>Python values shared by the three services\<close>

text \<open>
  Exceptions are values, all of them instances of Python's \<open>Exception\<close>:
  \<open>HTTPException\<close> (FastAPI) carries a status code and a
  detail, any other exception is kept as its class name and its \<open>str(e)\<close>.
  A call that may raise returns \<open>exn + 'a\<close>, with \<open>Inl\<close> for the raise.
  Cancellation of a coroutine (\<open>asyncio.CancelledError\<close>) is not modelled.
\<close>

datatype exn = HTTPException nat string | Exception string string

fun exn_str :: "exn \<Rightarrow> string" where
  "exn_str (HTTPException code detail) = detail"
| "exn_str (Exception cls msg) = msg"

fun is_HTTPException :: "exn \<Rightarrow> bool" where
  "is_HTTPException (HTTPException code detail) = True"
| "is_HTTPException (Exception cls msg) = False"

text \<open>\<open>str.lower()\<close> on the ASCII range (addresses and the message template are ASCII).\<close>

definition char_lower :: "char \<Rightarrow> char" where
  "char_lower c =
     (case map_of (zip ''ABCDEFGHIJKLMNOPQRSTUVWXYZ'' ''abcdefghijklmnopqrstuvwxyz'') c of
        Some l \<Rightarrow> l
      | None \<Rightarrow> c)"

definition lower :: "string \<Rightarrow> string" where
  "lower s = map char_lower s"

text \<open>\<open>str(n)\<close> for Python's unbounded integers: decimal digits, a minus sign when negative.\<close>

fun str_nat :: "nat \<Rightarrow> string" where
  "str_nat n =
     (if n < 10 then [''0123456789'' ! n]
      else str_nat (n div 10) @ [''0123456789'' ! (n mod 10)])"

declare str_nat.simps [simp del]

definition str_int :: "int \<Rightarrow> string" where
  "str_int i = (if i < 0 then CHR ''-'' # str_nat (nat (- i)) else str_nat (nat i))"

text \<open>
  JSON values: what \<open>json.loads\<close> returns and \<open>json.dumps\<close> accepts. A Python
  \<open>dict\<close> with string keys is \<open>JObj\<close>, an association list read with \<open>map_of\<close>
  and written with \<open>AList.update\<close>.
\<close>

datatype json = JNull | JBool bool | JInt int | JStr string
  | JList "json list" | JObj "(string \<times> json) list"

text \<open>Truth value of a Python object in \<open>if x:\<close>.\<close>

fun truthy :: "json \<Rightarrow> bool" where
  "truthy JNull = False"
| "truthy (JBool b) = b"
| "truthy (JInt i) = (i \<noteq> 0)"
| "truthy (JStr s) = (s \<noteq> [])"
| "truthy (JList xs) = (xs \<noteq> [])"
| "truthy (JObj kvs) = (kvs \<noteq> [])"

section \<open>Ownership verifier (backend, services/signature_verifier.py)\<close>

definition MAX_SIGNATURE_AGE_SECONDS :: int where
  "MAX_SIGNATURE_AGE_SECONDS = 300"

definition HTTP_401_UNAUTHORIZED :: nat where
  "HTTP_401_UNAUTHORIZED = 401"

text \<open>
  \<open>_verify_timestamp\<close>. The clock reading \<open>int(time.time())\<close> is the argument
  \<open>current_time\<close>; the two rejections keep the order of the source.
\<close>

definition verify_timestamp :: "int \<Rightarrow> int \<Rightarrow> exn + unit" where
  "verify_timestamp current_time timestamp =
     (let age = current_time - timestamp in
      if age < - 60 then
        Inl (HTTPException HTTP_401_UNAUTHORIZED
              ''Timestamp is in the future. Please check your system clock.'')
      else if age > MAX_SIGNATURE_AGE_SECONDS then
        Inl (HTTPException HTTP_401_UNAUTHORIZED
              (''Signature has expired. Please sign a new message. (Age: '' @ str_int age
               @ ''s, Max: '' @ str_int MAX_SIGNATURE_AGE_SECONDS @ ''s)''))
      else Inr ())"

definition unauthorized :: "exn + 'a \<Rightarrow> bool" where
  "unauthorized r = (case r of Inl (HTTPException code detail) \<Rightarrow> code = 401 | _ \<Rightarrow> False)"

section \<open>Connection manager (websocket-service, core/connection_manager.py)\<close>

text \<open>
  A WebSocket object is identified by its \<open>id\<close>, a task by its identifier string.
  The two dictionaries are maps; a Python \<open>set\<close> is kept as a list, with
  \<open>List.insert\<close> for \<open>add\<close>, \<open>removeAll\<close> for \<open>discard\<close>, and iteration in list order.
\<close>

record manager =
  active_connections :: "string \<rightharpoonup> nat list"
  connection_subscriptions :: "nat \<rightharpoonup> string list"

definition init_manager :: manager where
  "init_manager = \<lparr>active_connections = Map.empty, connection_subscriptions = Map.empty\<rparr>"

text \<open>
  The texts the sockets accepted, in order: \<open>(id, message)\<close> is appended when
  \<open>websocket.send_text(json.dumps(message))\<close> returns. The behaviour of the sockets is the
  parameter \<open>send_text\<close>: \<open>Some e\<close> when sending that message on that socket raises \<open>e\<close>.
\<close>

type_synonym outbox = "(nat \<times> json) list"
type_synonym sender = "nat \<Rightarrow> json \<Rightarrow> exn option"

text \<open>\<open>connect\<close>: \<open>websocket.accept()\<close> may raise, before the dictionary is touched.\<close>

definition connect :: "exn option \<Rightarrow> nat \<Rightarrow> manager \<Rightarrow> (exn + unit) \<times> manager" where
  "connect accept websocket m =
     (case accept of
        Some e \<Rightarrow> (Inl e, m)
      | None \<Rightarrow> (Inr (), m\<lparr>connection_subscriptions :=
                              (connection_subscriptions m)(websocket \<mapsto> [])\<rparr>))"

text \<open>
  \<open>_subscribe\<close>: \<open>self.connection_subscriptions[websocket]\<close> raises \<open>KeyError\<close> for a
  socket that is not connected, after \<open>active_connections\<close> has already been updated.
\<close>

definition subscribe :: "nat \<Rightarrow> string \<Rightarrow> manager \<Rightarrow> (exn + unit) \<times> manager" where
  "subscribe websocket task_id m =
     (let conns = (case active_connections m task_id of None \<Rightarrow> [] | Some c \<Rightarrow> c);
          m1 = m\<lparr>active_connections :=
                   (active_connections m)(task_id \<mapsto> List.insert websocket conns)\<rparr>
      in case connection_subscriptions m1 websocket of
           None \<Rightarrow> (Inl (Exception ''KeyError'' ''websocket''), m1)
         | Some tasks \<Rightarrow>
             (Inr (), m1\<lparr>connection_subscriptions :=
                          (connection_subscriptions m1)(websocket \<mapsto> List.insert task_id tasks)\<rparr>))"

definition unsubscribe :: "nat \<Rightarrow> string \<Rightarrow> manager \<Rightarrow> manager" where
  "unsubscribe websocket task_id m =
     (let m1 = (case active_connections m task_id of
                  None \<Rightarrow> m
                | Some conns \<Rightarrow>
                    (let conns' = removeAll websocket conns in
                     if conns' = []
                     then m\<lparr>active_connections := (active_connections m)(task_id := None)\<rparr>
                     else m\<lparr>active_connections := (active_connections m)(task_id \<mapsto> conns')\<rparr>))
      in case connection_subscriptions m1 websocket of
           None \<Rightarrow> m1
         | Some tasks \<Rightarrow>
             m1\<lparr>connection_subscriptions :=
                  (connection_subscriptions m1)(websocket \<mapsto> removeAll task_id tasks)\<rparr>)"

text \<open>\<open>disconnect\<close>: the loop runs over a copy of the socket's task set.\<close>

definition disconnect :: "nat \<Rightarrow> manager \<Rightarrow> manager" where
  "disconnect websocket m =
     (case connection_subscriptions m websocket of
        None \<Rightarrow> m
      | Some task_ids \<Rightarrow>
          (let m1 = fold (\<lambda>task_id. unsubscribe websocket task_id) task_ids m
           in m1\<lparr>connection_subscriptions := (connection_subscriptions m1)(websocket := None)\<rparr>))"

text \<open>
  \<open>send_message\<close> catches every exception of \<open>send_text\<close> and only logs it: it
  returns normally whether or not the text was sent.
\<close>

definition send_message ::
  "sender \<Rightarrow> nat \<Rightarrow> json \<Rightarrow> outbox \<Rightarrow> (exn + unit) \<times> outbox" where
  "send_message send_text websocket message out =
     (case send_text websocket message of
        None \<Rightarrow> (Inr (), out @ [(websocket, message)])
      | Some e \<Rightarrow> (Inr (), out))"

definition send_error ::
  "sender \<Rightarrow> nat \<Rightarrow> string \<Rightarrow> outbox \<Rightarrow> (exn + unit) \<times> outbox" where
  "send_error send_text websocket error out =
     send_message send_text websocket
       (JObj [(''type'', JStr ''error''), (''error'', JStr error)]) out"

text \<open>
  \<open>broadcast_status_update\<close>. The loop body is \<open>try: await self.send_message(...)\<close>
  \<open>except Exception: disconnected.append(websocket)\<close>; the sockets collected in
  \<open>disconnected\<close> are disconnected after the loop.
\<close>

fun broadcast_loop ::
  "sender \<Rightarrow> json \<Rightarrow> nat list \<Rightarrow> nat list \<Rightarrow> outbox \<Rightarrow> nat list \<times> outbox" where
  "broadcast_loop send_text message [] disconnected out = (disconnected, out)"
| "broadcast_loop send_text message (websocket # rest) disconnected out =
     (case send_message send_text websocket message out of
        (Inr u, out') \<Rightarrow> broadcast_loop send_text message rest disconnected out'
      | (Inl e, out') \<Rightarrow>
          broadcast_loop send_text message rest (disconnected @ [websocket]) out')"

definition status_update_message :: "string \<Rightarrow> json \<Rightarrow> json" where
  "status_update_message task_id status_data =
     JObj [(''type'', JStr ''status_update''), (''task_id'', JStr task_id),
           (''data'', status_data)]"

definition broadcast_status_update ::
  "sender \<Rightarrow> string \<Rightarrow> json \<Rightarrow> manager \<times> outbox \<Rightarrow> manager \<times> outbox" where
  "broadcast_status_update send_text task_id status_data s =
     (case active_connections (fst s) task_id of
        None \<Rightarrow> s
      | Some conns \<Rightarrow>
          (case broadcast_loop send_text (status_update_message task_id status_data)
                  conns [] (snd s) of
             (disconnected, out') \<Rightarrow> (fold disconnect disconnected (fst s), out')))"

text \<open>
  \<open>handle_message\<close>, on the decoded client text: a subscribe or unsubscribe request
  with its task identifier, or anything else (invalid JSON, a missing field, an unknown
  type), which is answered with an error message. An exception of \<open>_subscribe\<close> is caught
  and answered with an error message as well.
\<close>

datatype client_message = Subscribe string | Unsubscribe string | Malformed string

fun handle_message ::
  "sender \<Rightarrow> nat \<Rightarrow> client_message \<Rightarrow> manager \<times> outbox \<Rightarrow> manager \<times> outbox" where
  "handle_message send_text websocket (Malformed error) (m, out) =
     (m, snd (send_error send_text websocket error out))"
| "handle_message send_text websocket (Subscribe task_id) (m, out) =
     (case subscribe websocket task_id m of
        (Inr u, m') \<Rightarrow>
          (m', snd (send_message send_text websocket
                      (JObj [(''type'', JStr ''subscribed''), (''task_id'', JStr task_id),
                             (''message'', JStr (''Successfully subscribed to task '' @ task_id))])
                      out))
      | (Inl e, m') \<Rightarrow>
          (m', snd (send_error send_text websocket (''Internal error: '' @ exn_str e) out)))"
| "handle_message send_text websocket (Unsubscribe task_id) (m, out) =
     (let m' = unsubscribe websocket task_id m in
      (m', snd (send_message send_text websocket
                  (JObj [(''type'', JStr ''unsubscribed''), (''task_id'', JStr task_id),
                         (''message'', JStr (''Successfully unsubscribed from task '' @ task_id))])
                  out)))"

text \<open>
  The service as a transition system (api/websocket.py, services/redis\_subscriber.py).
  \<open>websocket_endpoint\<close> runs once per WebSocket object: it calls \<open>connect\<close>, then
  \<open>handle_message\<close> for every text received, and \<open>disconnect\<close> when receiving raises.
  \<open>endpoints\<close> is the set of sockets whose endpoint is in its receive loop. A socket
  that connects is a new object, referenced nowhere in the manager. The subscriber calls
  \<open>broadcast_status_update\<close> for every status event, at any time.
\<close>

record service =
  mgr :: manager
  sent :: outbox
  endpoints :: "nat set"

definition init_service :: service where
  "init_service = \<lparr>mgr = init_manager, sent = [], endpoints = {}\<rparr>"

definition unreferenced :: "nat \<Rightarrow> service \<Rightarrow> bool" where
  "unreferenced websocket s =
     (websocket \<notin> endpoints s
      \<and> connection_subscriptions (mgr s) websocket = None
      \<and> (\<forall>conns \<in> ran (active_connections (mgr s)). websocket \<notin> set conns))"

inductive reachable :: "service \<Rightarrow> bool" where
  Start: "reachable init_service"
| Accepted:
    "reachable s \<Longrightarrow> unreferenced websocket s
     \<Longrightarrow> connect accept websocket (mgr s) = (Inr (), m')
     \<Longrightarrow> reachable (s\<lparr>mgr := m', endpoints := insert websocket (endpoints s)\<rparr>)"
| Refused:
    "reachable s \<Longrightarrow> unreferenced websocket s
     \<Longrightarrow> connect accept websocket (mgr s) = (Inl e, m')
     \<Longrightarrow> reachable (s\<lparr>mgr := m'\<rparr>)"
| Received:
    "reachable s \<Longrightarrow> websocket \<in> endpoints s
     \<Longrightarrow> handle_message send_text websocket msg (mgr s, sent s) = (m', out')
     \<Longrightarrow> reachable (s\<lparr>mgr := m', sent := out'\<rparr>)"
| Closed:
    "reachable s \<Longrightarrow> websocket \<in> endpoints s
     \<Longrightarrow> reachable (s\<lparr>mgr := disconnect websocket (mgr s),
                        endpoints := endpoints s - {websocket}\<rparr>)"
| Event:
    "reachable s
     \<Longrightarrow> broadcast_status_update send_text task_id status_data (mgr s, sent s) = (m', out')
     \<Longrightarrow> reachable (s\<lparr>mgr := m', sent := out'\<rparr>)"

text \<open>The two directions of the subscription relation, as the dictionaries hold them.\<close>

definition task_has :: "manager \<Rightarrow> string \<Rightarrow> nat \<Rightarrow> bool" where
  "task_has m task_id websocket =
     (case active_connections m task_id of None \<Rightarrow> False | Some conns \<Rightarrow> websocket \<in> set conns)"

definition conn_has :: "manager \<Rightarrow> nat \<Rightarrow> string \<Rightarrow> bool" where
  "conn_has m websocket task_id =
     (case connection_subscriptions m websocket of
        None \<Rightarrow> False | Some tasks \<Rightarrow> task_id \<in> set tasks)"

text \<open>Concrete states used to evaluate the manager.\<close>

definition demo_manager :: manager where
  "demo_manager = \<lparr>active_connections = [''task-a'' \<mapsto> [1]],
                    connection_subscriptions = [1 \<mapsto> [''task-a'']]\<rparr>"

definition demo_service :: service where
  "demo_service = \<lparr>mgr = demo_manager, sent = [], endpoints = {1}\<rparr>"

definition failing_first :: sender where
  "failing_first websocket message =
     (if websocket = 1 then Some (Exception ''RuntimeError'' ''connection closed'') else None)"

definition two_subscribers :: manager where
  "two_subscribers = \<lparr>active_connections = [''task-a'' \<mapsto> [1, 2]],
       connection_subscriptions = [1 \<mapsto> [''task-a''], 2 \<mapsto> [''task-a'']]\<rparr>"

section \<open>Kafka consumer (worker, services/kafka\_consumer.py)\<close>

text \<open>
  A consumed message, with its value already deserialised by the consumer. The world
  \<open>'w\<close> is whatever the handlers act on; a handler is a call that may raise.
\<close>

record 'v kafka_msg =
  msg_topic :: string
  msg_partition :: nat
  msg_offset :: nat
  msg_key :: "string option"
  msg_value :: 'v

type_synonym ('v, 'w) handler = "'v \<Rightarrow> 'w \<Rightarrow> (exn + unit) \<times> 'w"

text \<open>
  The \<open>AIOKafkaConsumer\<close> object, as the library documents it. The position of a
  partition is the offset of the next record the consumer will yield: iterating over the
  consumer yields a record and moves the position of its partition behind that record.
  \<open>commit()\<close> without arguments commits the current position of every partition;
  \<open>commit_faults n = Some e\<close> when the \<open>n\<close>-th call of \<open>commit()\<close> raises \<open>e\<close>, and
  then nothing is committed. The committed offset of a partition is where a member of the
  consumer group resumes after a restart or a rebalance: a record below it is not
  delivered again.
\<close>

record consumer =
  position :: "string \<times> nat \<rightharpoonup> nat"
  committed :: "string \<times> nat \<rightharpoonup> nat"
  commit_calls :: nat

definition init_consumer :: consumer where
  "init_consumer = \<lparr>position = Map.empty, committed = Map.empty, commit_calls = 0\<rparr>"

definition yielded :: "'v kafka_msg \<Rightarrow> consumer \<Rightarrow> consumer" where
  "yielded msg c =
     c\<lparr>position := (position c)((msg_topic msg, msg_partition msg) \<mapsto> Suc (msg_offset msg))\<rparr>"

definition commit :: "(nat \<Rightarrow> exn option) \<Rightarrow> consumer \<Rightarrow> (exn + unit) \<times> consumer" where
  "commit commit_faults c =
     (case commit_faults (commit_calls c) of
        Some e \<Rightarrow> (Inl e, c\<lparr>commit_calls := Suc (commit_calls c)\<rparr>)
      | None \<Rightarrow> (Inr (), c\<lparr>committed := committed c ++ position c,
                              commit_calls := Suc (commit_calls c)\<rparr>))"

definition eligible_for_redelivery :: "consumer \<Rightarrow> 'v kafka_msg \<Rightarrow> bool" where
  "eligible_for_redelivery c msg =
     (case committed c (msg_topic msg, msg_partition msg) of
        None \<Rightarrow> True
      | Some next_offset \<Rightarrow> next_offset \<le> msg_offset msg)"

text \<open>
  \<open>value.get(key)\<close> on a deserialised JSON value: only a dictionary has the method.
\<close>

fun type_name :: "json \<Rightarrow> string" where
  "type_name JNull = ''NoneType''"
| "type_name (JBool b) = ''bool''"
| "type_name (JInt i) = ''int''"
| "type_name (JStr s) = ''str''"
| "type_name (JList xs) = ''list''"
| "type_name (JObj d) = ''dict''"

fun py_get :: "json \<Rightarrow> string \<Rightarrow> exn + json" where
  "py_get (JObj d) key = Inr (case map_of d key of None \<Rightarrow> JNull | Some v \<Rightarrow> v)"
| "py_get v key =
     Inl (Exception ''AttributeError''
            ([CHR 0x27] @ type_name v @ [CHR 0x27] @ '' object has no attribute ''
             @ [CHR 0x27] @ ''get'' @ [CHR 0x27]))"

text \<open>
  What one iteration of the loop did, in order: the handler returned or raised, the
  success log that follows the handler raised (it evaluates \<open>value.get("task_id")\<close>),
  \<open>commit()\<close> was called, and the loop logged "Failed to process message" for an
  exception of the handler, of the success log or of the commit.
\<close>

datatype loop_event =
  HandlerReturned | HandlerRaised exn | LogRaised exn | CommitCalled | ProcessingFailed exn

text \<open>
  \<open>_process_message\<close>: \<open>self._handlers.get(topic)\<close>; without a handler the function
  returns. Otherwise the handler runs, then the success log evaluates
  \<open>value.get("task_id")\<close>; an exception of either is logged and raised again.
  \<open>value_get\<close> is the \<open>get\<close> method of the message values. The registered handlers
  are a dictionary in insertion order.
\<close>

definition process_message ::
  "('v \<Rightarrow> string \<Rightarrow> exn + json) \<Rightarrow> (string \<times> ('v, 'w) handler) list \<Rightarrow> 'v kafka_msg \<Rightarrow> 'w
   \<Rightarrow> (exn + unit) \<times> loop_event list \<times> 'w" where
  "process_message value_get handlers msg w =
     (case map_of handlers (msg_topic msg) of
        None \<Rightarrow> (Inr (), [], w)
      | Some handler \<Rightarrow>
          (case handler (msg_value msg) w of
             (Inl e, w') \<Rightarrow> (Inl e, [HandlerRaised e], w')
           | (Inr u, w') \<Rightarrow>
               (case value_get (msg_value msg) ''task_id'' of
                  Inl e \<Rightarrow> (Inl e, [HandlerReturned, LogRaised e], w')
                | Inr logged \<Rightarrow> (Inr (), [HandlerReturned], w'))))"

text \<open>
  The body of the loop for one message:
  \<open>try: await self._process_message(msg); await self._consumer.commit()\<close>
  \<open>except Exception as e: logger.error(...)\<close>.
\<close>

definition consume_one ::
  "('v \<Rightarrow> string \<Rightarrow> exn + json) \<Rightarrow> (string \<times> ('v, 'w) handler) list \<Rightarrow> (nat \<Rightarrow> exn option)
   \<Rightarrow> 'v kafka_msg \<Rightarrow> consumer \<times> 'w \<Rightarrow> loop_event list \<times> consumer \<times> 'w" where
  "consume_one value_get handlers commit_faults msg cw =
     (case process_message value_get handlers msg (snd cw) of
        (Inl e, evs, w') \<Rightarrow> (evs @ [ProcessingFailed e], fst cw, w')
      | (Inr u, evs, w') \<Rightarrow>
          (case commit commit_faults (fst cw) of
             (Inr u', c') \<Rightarrow> (evs @ [CommitCalled], c', w')
           | (Inl e, c') \<Rightarrow> (evs @ [CommitCalled, ProcessingFailed e], c', w')))"

text \<open>
  \<open>_consume_loop\<close> over the messages the consumer yields, each with the value of
  \<open>self._running\<close> when it is received; the loop breaks at the first message received
  while not running. The result is the journal: every message received, with the events
  of its iteration. The iterator ending (or raising) ends the loop.
\<close>

fun consume_loop ::
  "('v \<Rightarrow> string \<Rightarrow> exn + json) \<Rightarrow> (string \<times> ('v, 'w) handler) list \<Rightarrow> (nat \<Rightarrow> exn option)
   \<Rightarrow> (bool \<times> 'v kafka_msg) list \<Rightarrow> consumer \<times> 'w
   \<Rightarrow> ('v kafka_msg \<times> loop_event list) list \<times> consumer \<times> 'w" where
  "consume_loop value_get handlers commit_faults [] cw = ([], cw)"
| "consume_loop value_get handlers commit_faults ((running, msg) # rest) cw =
     (if \<not> running then ([(msg, [])], yielded msg (fst cw), snd cw)
      else case consume_one value_get handlers commit_faults msg (yielded msg (fst cw), snd cw) of
             (evs, cw') \<Rightarrow>
               (case consume_loop value_get handlers commit_faults rest cw' of
                  (journal, cw'') \<Rightarrow> ((msg, evs) # journal, cw'')))"

text \<open>
  \<open>start\<close>: without handlers it returns at once; otherwise the consumer subscribes to
  exactly the topics of the registered handlers, so of the messages on the broker it
  yields those on a subscribed topic. Starting the consumer may raise.
\<close>

definition start ::
  "('v \<Rightarrow> string \<Rightarrow> exn + json) \<Rightarrow> (string \<times> ('v, 'w) handler) list \<Rightarrow> exn option
   \<Rightarrow> (nat \<Rightarrow> exn option) \<Rightarrow> (bool \<times> 'v kafka_msg) list \<Rightarrow> consumer \<times> 'w
   \<Rightarrow> (exn + unit) \<times> ('v kafka_msg \<times> loop_event list) list \<times> consumer \<times> 'w" where
  "start value_get handlers consumer_start commit_faults on_broker cw =
     (if handlers = [] then (Inr (), [], cw)
      else
        (let topics = map fst handlers in
         case consumer_start of
           Some e \<Rightarrow> (Inl e, [], cw)
         | None \<Rightarrow>
             (case consume_loop value_get handlers commit_faults
                     (filter (\<lambda>(running, msg). msg_topic msg \<in> set topics) on_broker) cw of
                (journal, cw') \<Rightarrow> (Inr (), journal, cw'))))"

section \<open>Redis and Kafka as the services see them\<close>

text \<open>
  A Redis value is a text. The services store three kinds: a plain string, the text
  \<open>json.dumps(j)\<close> of a JSON value, and the text \<open>str(d)\<close> of a dictionary; the
  text is kept symbolically, with the value it was made from.
\<close>

datatype redis_value = Text string | JsonDumps json | PyStr json

text \<open>
  The calls that reach Redis or the broker, as the trace \<open>effects\<close> records them when
  they succeed. \<open>store\<close> is the content of Redis (an expired key is an absent key),
  \<open>clock\<close> counts the calls made so far, and the three flags are the \<open>_started\<close>
  attributes of the process's cache service, status publisher and Kafka producer.
\<close>

datatype effect =
    Setex string nat redis_value
  | Delete string
  | Publish string redis_value
  | KafkaSend string "string option" json

record world =
  store :: "string \<rightharpoonup> redis_value"
  effects :: "effect list"
  clock :: nat
  cache_started :: bool
  publisher_started :: bool
  producer_started :: bool

definition init_world :: world where
  "init_world = \<lparr>store = Map.empty, effects = [], clock = 0, cache_started = False,
                  publisher_started = False, producer_started = False\<rparr>"

text \<open>
  Sequencing of calls that may raise, and \<open>try: ... except Exception as e: ...\<close>.
\<close>

definition ret :: "'a \<Rightarrow> 'w \<Rightarrow> (exn + 'a) \<times> 'w" where
  "ret a w = (Inr a, w)"

definition raise :: "exn \<Rightarrow> 'w \<Rightarrow> (exn + 'a) \<times> 'w" where
  "raise e w = (Inl e, w)"

definition and_then ::
  "('w \<Rightarrow> (exn + 'a) \<times> 'w) \<Rightarrow> ('a \<Rightarrow> 'w \<Rightarrow> (exn + 'b) \<times> 'w) \<Rightarrow> 'w \<Rightarrow> (exn + 'b) \<times> 'w" where
  "and_then m f w = (case m w of (Inl e, w') \<Rightarrow> (Inl e, w') | (Inr a, w') \<Rightarrow> f a w')"

definition try_except ::
  "('w \<Rightarrow> (exn + 'a) \<times> 'w) \<Rightarrow> (exn \<Rightarrow> 'w \<Rightarrow> (exn + 'a) \<times> 'w) \<Rightarrow> 'w \<Rightarrow> (exn + 'a) \<times> 'w" where
  "try_except m handler w = (case m w of (Inl e, w') \<Rightarrow> handler e w' | (Inr a, w') \<Rightarrow> (Inr a, w'))"

text \<open>
  The environment decides which call fails: \<open>fl n = Some e\<close> when the call made at
  clock \<open>n\<close> raises \<open>e\<close>. A failed call changes nothing but the clock.
\<close>

type_synonym faults = "nat \<Rightarrow> exn option"

definition external :: "faults \<Rightarrow> (world \<Rightarrow> world) \<Rightarrow> world \<Rightarrow> (exn + unit) \<times> world" where
  "external fl act w =
     (case fl (clock w) of
        Some e \<Rightarrow> (Inl e, w\<lparr>clock := clock w + 1\<rparr>)
      | None \<Rightarrow> (Inr (), act (w\<lparr>clock := clock w + 1\<rparr>)))"

definition redis_setex :: "faults \<Rightarrow> string \<Rightarrow> nat \<Rightarrow> redis_value \<Rightarrow> world \<Rightarrow> (exn + unit) \<times> world" where
  "redis_setex fl key ttl v =
     external fl (\<lambda>w. w\<lparr>store := (store w)(key \<mapsto> v), effects := effects w @ [Setex key ttl v]\<rparr>)"

definition redis_delete :: "faults \<Rightarrow> string \<Rightarrow> world \<Rightarrow> (exn + unit) \<times> world" where
  "redis_delete fl key =
     external fl (\<lambda>w. w\<lparr>store := (store w)(key := None), effects := effects w @ [Delete key]\<rparr>)"

definition redis_publish :: "faults \<Rightarrow> string \<Rightarrow> redis_value \<Rightarrow> world \<Rightarrow> (exn + unit) \<times> world" where
  "redis_publish fl channel v =
     external fl (\<lambda>w. w\<lparr>effects := effects w @ [Publish channel v]\<rparr>)"

definition redis_get :: "faults \<Rightarrow> string \<Rightarrow> world \<Rightarrow> (exn + redis_value option) \<times> world" where
  "redis_get fl key w =
     (case fl (clock w) of
        Some e \<Rightarrow> (Inl e, w\<lparr>clock := clock w + 1\<rparr>)
      | None \<Rightarrow> (Inr (store w key), w\<lparr>clock := clock w + 1\<rparr>))"

definition kafka_send ::
  "faults \<Rightarrow> string \<Rightarrow> string option \<Rightarrow> json \<Rightarrow> world \<Rightarrow> (exn + unit) \<times> world" where
  "kafka_send fl topic key v =
     external fl (\<lambda>w. w\<lparr>effects := effects w @ [KafkaSend topic key v]\<rparr>)"

text \<open>
  \<open>start()\<close> of the three services: nothing when already started, otherwise the
  connection is made (it may raise, and the exception is raised again) and the flag set.
\<close>

definition cache_start :: "faults \<Rightarrow> world \<Rightarrow> (exn + unit) \<times> world" where
  "cache_start fl w =
     (if cache_started w then (Inr (), w) else external fl (\<lambda>w. w\<lparr>cache_started := True\<rparr>) w)"

definition publisher_start :: "faults \<Rightarrow> world \<Rightarrow> (exn + unit) \<times> world" where
  "publisher_start fl w =
     (if publisher_started w then (Inr (), w)
      else external fl (\<lambda>w. w\<lparr>publisher_started := True\<rparr>) w)"

definition producer_start :: "faults \<Rightarrow> world \<Rightarrow> (exn + unit) \<times> world" where
  "producer_start fl w =
     (if producer_started w then (Inr (), w)
      else external fl (\<lambda>w. w\<lparr>producer_started := True\<rparr>) w)"

text \<open>Python values in the places the services use them.\<close>

definition str_truthy :: "string option \<Rightarrow> bool" where
  "str_truthy m = (case m of None \<Rightarrow> False | Some s \<Rightarrow> s \<noteq> [])"

definition opt_json :: "string option \<Rightarrow> json" where
  "opt_json m = (case m of None \<Rightarrow> JNull | Some s \<Rightarrow> JStr s)"

definition char_upper :: "char \<Rightarrow> char" where
  "char_upper c =
     (case map_of (zip ''abcdefghijklmnopqrstuvwxyz'' ''ABCDEFGHIJKLMNOPQRSTUVWXYZ'') c of
        Some u \<Rightarrow> u
      | None \<Rightarrow> c)"

definition capitalize :: "string \<Rightarrow> string" where
  "capitalize s = (case s of [] \<Rightarrow> [] | c # cs \<Rightarrow> char_upper c # lower cs)"

text \<open>Truth value of a Redis text in \<open>if value:\<close>: the text is not empty.\<close>

fun text_truthy :: "redis_value \<Rightarrow> bool" where
  "text_truthy (Text s) = (s \<noteq> [])"
| "text_truthy (JsonDumps j) = True"
| "text_truthy (PyStr j) = True"

text \<open>
  \<open>json.loads\<close>: the text \<open>json.dumps(j)\<close> decodes to \<open>j\<close>; what any other text
  decodes to (or the \<open>JSONDecodeError\<close> it raises) is the parameter \<open>decode\<close>.
\<close>

fun json_loads :: "(redis_value \<Rightarrow> exn + json) \<Rightarrow> redis_value \<Rightarrow> exn + json" where
  "json_loads decode (JsonDumps j) = Inr j"
| "json_loads decode v = decode v"

section \<open>Cache service and status publisher of the API tier (backend)\<close>

definition PUBSUB_CHANNEL :: string where
  "PUBSUB_CHANNEL = ''task_status_updates''"

definition ANALYSIS_CACHE_TTL :: nat where
  "ANALYSIS_CACHE_TTL = 3600"

text \<open>
  \<open>RedisPublisher.publish_status_update\<close> (services/redis\_publisher.py): \<open>start()\<close>
  is outside the \<open>try\<close>, the publish inside it.
\<close>

definition publish_status_update ::
  "faults \<Rightarrow> string \<Rightarrow> string \<Rightarrow> int \<Rightarrow> string option \<Rightarrow> world \<Rightarrow> (exn + unit) \<times> world" where
  "publish_status_update fl task_id status progress message =
     and_then (publisher_start fl) (\<lambda>u.
       (let update = [(''task_id'', JStr task_id), (''status'', JStr status),
                      (''progress'', JInt progress)]
                     @ (if str_truthy message then [(''message'', opt_json message)] else [])
        in try_except (redis_publish fl PUBSUB_CHANNEL (JsonDumps (JObj update)))
                      (\<lambda>e. ret ())))"

text \<open>
  \<open>CacheService.set_task_status\<close> (backend services/cache.py): the write, then the
  publish inside \<open>try ... except Exception: logger.warning(...)\<close>.
\<close>

definition set_task_status ::
  "faults \<Rightarrow> string \<Rightarrow> string \<Rightarrow> int \<Rightarrow> string option \<Rightarrow> nat \<Rightarrow> world \<Rightarrow> (exn + unit) \<times> world" where
  "set_task_status fl task_id status progress message ttl =
     and_then (cache_start fl) (\<lambda>u.
       (let key = ''task:status:'' @ task_id;
            status_data = [(''status'', JStr status), (''progress'', JInt progress)]
                          @ (if str_truthy message then [(''message'', opt_json message)] else [])
        in and_then (redis_setex fl key ttl (JsonDumps (JObj status_data))) (\<lambda>u.
             try_except (publish_status_update fl task_id status progress message)
                        (\<lambda>e. ret ()))))"

definition set_task_result ::
  "faults \<Rightarrow> string \<Rightarrow> json \<Rightarrow> nat \<Rightarrow> world \<Rightarrow> (exn + unit) \<times> world" where
  "set_task_result fl task_id result ttl =
     and_then (cache_start fl) (\<lambda>u.
       redis_setex fl (''task:result:'' @ task_id) ttl (JsonDumps result))"

definition cache_wallet_analysis ::
  "faults \<Rightarrow> string \<Rightarrow> json \<Rightarrow> nat option \<Rightarrow> world \<Rightarrow> (exn + unit) \<times> world" where
  "cache_wallet_analysis fl wallet_address analysis ttl =
     and_then (cache_start fl) (\<lambda>u.
       (let ttl' = (case ttl of None \<Rightarrow> ANALYSIS_CACHE_TTL | Some t \<Rightarrow> t);
            key = ''analysis:wallet:'' @ lower wallet_address
        in redis_setex fl key ttl' (JsonDumps analysis)))"

definition link_task_to_commitment ::
  "faults \<Rightarrow> string \<Rightarrow> string \<Rightarrow> nat \<Rightarrow> world \<Rightarrow> (exn + unit) \<times> world" where
  "link_task_to_commitment fl task_id commitment ttl =
     and_then (cache_start fl) (\<lambda>u.
       and_then (redis_setex fl (''task:commitment:'' @ task_id) ttl (Text commitment)) (\<lambda>u.
         redis_setex fl (''commitment:task:'' @ commitment) ttl (Text task_id)))"

definition get_cached_commitment_analysis ::
  "faults \<Rightarrow> (redis_value \<Rightarrow> exn + json) \<Rightarrow> string \<Rightarrow> world \<Rightarrow> (exn + json option) \<times> world" where
  "get_cached_commitment_analysis fl decode commitment =
     and_then (cache_start fl) (\<lambda>u.
       and_then (redis_get fl (''analysis:commitment:'' @ commitment)) (\<lambda>value.
         (case value of
            None \<Rightarrow> ret None
          | Some v \<Rightarrow>
              if text_truthy v
              then (case json_loads decode v of Inl e \<Rightarrow> raise e | Inr j \<Rightarrow> ret (Some j))
              else ret None)))"

definition cache_commitment_analysis ::
  "faults \<Rightarrow> string \<Rightarrow> json \<Rightarrow> nat \<Rightarrow> world \<Rightarrow> (exn + unit) \<times> world" where
  "cache_commitment_analysis fl commitment analysis ttl =
     and_then (cache_start fl) (\<lambda>u.
       redis_setex fl (''analysis:commitment:'' @ commitment) ttl (JsonDumps analysis))"

definition invalidate_wallet_analysis ::
  "faults \<Rightarrow> string \<Rightarrow> world \<Rightarrow> (exn + unit) \<times> world" where
  "invalidate_wallet_analysis fl wallet_address =
     and_then (cache_start fl) (\<lambda>u.
       redis_delete fl (''analysis:wallet:'' @ lower wallet_address))"

section \<open>Cache service and result producer of the worker tier\<close>

definition REDIS_PUBSUB_CHANNEL :: string where
  "REDIS_PUBSUB_CHANNEL = ''task_status_updates''"

definition KAFKA_TOPIC_RISK_REQUESTS :: string where
  "KAFKA_TOPIC_RISK_REQUESTS = ''risk-analysis-requests''"

definition KAFKA_TOPIC_RISK_RESULTS :: string where
  "KAFKA_TOPIC_RISK_RESULTS = ''risk-analysis-results''"

text \<open>
  \<open>CacheService.update_task_status\<close> (worker services/cache.py): the write, then the
  publish, with no \<open>try\<close> around either.
\<close>

definition update_task_status ::
  "faults \<Rightarrow> string \<Rightarrow> string \<Rightarrow> int \<Rightarrow> string option \<Rightarrow> world \<Rightarrow> (exn + unit) \<times> world" where
  "update_task_status fl task_id status progress message =
     and_then (cache_start fl) (\<lambda>u.
       (let key = ''task:status:'' @ task_id;
            v = JsonDumps (JObj [(''status'', JStr status), (''progress'', JInt progress),
                                 (''message'', opt_json message)])
        in and_then (redis_setex fl key 3600 v) (\<lambda>u.
             (let pubsub_message = JsonDumps (JObj
                    [(''task_id'', JStr task_id), (''status'', JStr status),
                     (''progress'', JInt progress),
                     (''message'', JStr (case message of
                                           None \<Rightarrow> capitalize status @ '' ('' @ str_int progress @ ''%)''
                                         | Some m \<Rightarrow>
                                             if m \<noteq> [] then m
                                             else capitalize status @ '' ('' @ str_int progress @ ''%)''))])
              in redis_publish fl REDIS_PUBSUB_CHANNEL pubsub_message))))"

definition store_task_result ::
  "faults \<Rightarrow> string \<Rightarrow> json \<Rightarrow> world \<Rightarrow> (exn + unit) \<times> world" where
  "store_task_result fl task_id result =
     and_then (cache_start fl) (\<lambda>u.
       redis_setex fl (''task:result:'' @ task_id) 3600 (JsonDumps result))"

definition worker_cache_commitment_analysis ::
  "faults \<Rightarrow> string \<Rightarrow> json \<Rightarrow> nat \<Rightarrow> world \<Rightarrow> (exn + unit) \<times> world" where
  "worker_cache_commitment_analysis fl commitment analysis ttl =
     and_then (cache_start fl) (\<lambda>u.
       redis_setex fl (''analysis:commitment:'' @ commitment) ttl (JsonDumps analysis))"

text \<open>
  \<open>KafkaProducerService.publish_risk_analysis_result\<close> (worker
  services/kafka\_producer.py); \<open>processed_at\<close> is \<open>datetime.utcnow().isoformat()\<close>.
  A \<open>KafkaError\<close> of the send is logged and raised again.
\<close>

definition publish_risk_analysis_result ::
  "faults \<Rightarrow> string \<Rightarrow> string \<Rightarrow> string \<Rightarrow> json option \<Rightarrow> string option \<Rightarrow> world
   \<Rightarrow> (exn + unit) \<times> world" where
  "publish_risk_analysis_result fl processed_at task_id status result error =
     and_then (producer_start fl) (\<lambda>u.
       (let message = JObj [(''task_id'', JStr task_id), (''status'', JStr status),
                            (''result'', (case result of None \<Rightarrow> JNull | Some r \<Rightarrow> r)),
                            (''error'', opt_json error),
                            (''processed_at'', JStr processed_at)]
        in kafka_send fl KAFKA_TOPIC_RISK_RESULTS (Some task_id) message))"

section \<open>Ownership verification and the analysis endpoint (backend, api/risk.py)\<close>

text \<open>
  \<open>_verify_message_format\<close>: the message must equal, ignoring case, the template
  filled with the lower-cased wallet and the timestamp.
\<close>

definition verify_message_format :: "string \<Rightarrow> string \<Rightarrow> int \<Rightarrow> exn + unit" where
  "verify_message_format message wallet timestamp =
     (let expected = ''Silent Risk Analysis: '' @ lower wallet @ '' at '' @ str_int timestamp in
      if lower message \<noteq> lower expected
      then Inl (HTTPException HTTP_401_UNAUTHORIZED
                  (''Invalid message format. Expected: '' @
                   [CHR 0x27] @ ''Silent Risk Analysis: {wallet} at {timestamp}'' @ [CHR 0x27] @
                   '' with your wallet address and current timestamp.''))
      else Inr ())"

text \<open>
  \<open>_recover_signer\<close>: the recovery itself (\<open>Account.recover_message\<close> on the
  EIP-191 encoding) is the parameter \<open>recover\<close>; its exception becomes a 401.
\<close>

definition recover_signer ::
  "(string \<Rightarrow> string \<Rightarrow> exn + string) \<Rightarrow> string \<Rightarrow> string \<Rightarrow> exn + string" where
  "recover_signer recover message signature =
     (case recover message signature of
        Inl e \<Rightarrow> Inl (HTTPException HTTP_401_UNAUTHORIZED
                       (''Failed to recover signer from signature: '' @ exn_str e))
      | Inr recovered \<Rightarrow> Inr recovered)"

definition verify_ownership ::
  "int \<Rightarrow> (string \<Rightarrow> string \<Rightarrow> exn + string) \<Rightarrow> string \<Rightarrow> string \<Rightarrow> string \<Rightarrow> int
   \<Rightarrow> exn + bool" where
  "verify_ownership current_time recover wallet_address signature message timestamp =
     (case verify_timestamp current_time timestamp of
        Inl e \<Rightarrow> Inl e
      | Inr u \<Rightarrow>
          (case verify_message_format message wallet_address timestamp of
             Inl e \<Rightarrow> Inl e
           | Inr u \<Rightarrow>
               (case recover_signer recover message signature of
                  Inl e \<Rightarrow> Inl e
                | Inr recovered_address \<Rightarrow>
                    if lower recovered_address \<noteq> lower wallet_address
                    then Inl (HTTPException HTTP_401_UNAUTHORIZED
                       ''Signature verification failed. The signature does not match the wallet address.'')
                    else Inr True)))"

text \<open>The request and response models of the endpoint (api/models.py).\<close>

record risk_analysis_request =
  rq_commitment :: string
  rq_wallet_address :: string
  rq_signature :: string
  rq_message :: string
  rq_timestamp :: int
  rq_force_refresh :: bool

datatype task_status = PENDING | PROCESSING | COMPLETED | FAILED

record task_response =
  tr_task_id :: string
  tr_status :: task_status
  tr_progress :: int
  tr_message :: "string option"
  tr_result :: "(string \<times> json) list option"
  tr_error :: "string option"

text \<open>
  What the endpoint needs from outside: the fault schedule of Redis and Kafka, the clock,
  signature recovery, the identifier \<open>uuid.uuid4()\<close> returns, and the decoding of
  Redis texts that are not \<open>json.dumps\<close> output.
\<close>

record api_env =
  api_faults :: faults
  current_time :: int
  recover_message :: "string \<Rightarrow> string \<Rightarrow> exn + string"
  uuid4 :: string
  api_utcnow :: string
  decode_text :: "redis_value \<Rightarrow> exn + json"

text \<open>
  \<open>KafkaProducerService.publish_risk_analysis_request\<close> (backend
  services/kafka\_producer.py): the message is keyed by the commitment.
\<close>

definition publish_risk_analysis_request ::
  "api_env \<Rightarrow> string \<Rightarrow> string \<Rightarrow> bool \<Rightarrow> world \<Rightarrow> (exn + string) \<times> world" where
  "publish_risk_analysis_request api commitment wallet_address force_refresh =
     and_then (producer_start (api_faults api)) (\<lambda>u.
       (let task_id = uuid4 api;
            message = JObj [(''task_id'', JStr task_id), (''commitment'', JStr commitment),
                            (''wallet_address'', JStr (lower wallet_address)),
                            (''force_refresh'', JBool force_refresh),
                            (''timestamp'', JStr (api_utcnow api)),
                            (''correlation_id'', JStr task_id)]
        in and_then (kafka_send (api_faults api) KAFKA_TOPIC_RISK_REQUESTS (Some commitment) message)
             (\<lambda>u. ret task_id)))"

text \<open>
  The response for a cache hit. \<open>TaskResponse.result\<close> is declared
  \<open>Optional[Dict[str, Any]]\<close>: a cached value that is not a dictionary fails validation.
\<close>

definition cached_response :: "json \<Rightarrow> exn + task_response" where
  "cached_response cached =
     (case cached of
        JObj kvs \<Rightarrow>
          Inr \<lparr>tr_task_id = ''cached'', tr_status = COMPLETED, tr_progress = 100,
               tr_message = Some ''Returned from cache'', tr_result = Some kvs,
               tr_error = None\<rparr>
      | _ \<Rightarrow> Inl (Exception ''ValidationError'' ''result: value is not a valid dict''))"

definition submit_analysis :: "api_env \<Rightarrow> risk_analysis_request \<Rightarrow> world \<Rightarrow> (exn + task_response) \<times> world" where
  "submit_analysis api request =
     and_then (publish_risk_analysis_request api (rq_commitment request)
                 (rq_wallet_address request) (rq_force_refresh request)) (\<lambda>task_id.
     and_then (set_task_status (api_faults api) task_id ''pending'' 0
                 (Some ''Request submitted to analysis queue'') 3600) (\<lambda>u.
     and_then (link_task_to_commitment (api_faults api) task_id (rq_commitment request) 3600) (\<lambda>u.
       ret \<lparr>tr_task_id = task_id, tr_status = PENDING, tr_progress = 0,
            tr_message = Some ''Analysis request submitted successfully. Use task_id to poll for results.'',
            tr_result = None, tr_error = None\<rparr>)))"

text \<open>
  \<open>analyze_wallet\<close>: ownership check, then the cache lookup unless a refresh is
  forced (\<open>if cached:\<close> tests the truth value of the decoded entry), then the
  submission. An \<open>HTTPException\<close> is raised again; any other exception becomes a 500.
\<close>

definition analyze_wallet ::
  "api_env \<Rightarrow> risk_analysis_request \<Rightarrow> world \<Rightarrow> (exn + task_response) \<times> world" where
  "analyze_wallet api request =
     try_except
       (and_then (\<lambda>w. (verify_ownership (current_time api) (recover_message api)
                          (rq_wallet_address request) (rq_signature request)
                          (rq_message request) (rq_timestamp request), w)) (\<lambda>verified.
          if \<not> rq_force_refresh request
          then and_then (get_cached_commitment_analysis (api_faults api) (decode_text api)
                           (rq_commitment request)) (\<lambda>cached.
                 (case cached of
                    None \<Rightarrow> submit_analysis api request
                  | Some c \<Rightarrow>
                      if truthy c then (\<lambda>w. (cached_response c, w))
                      else submit_analysis api request))
          else submit_analysis api request))
       (\<lambda>e. if is_HTTPException e then raise e
            else raise (HTTPException 500 (''Internal server error: '' @ exn_str e)))"

text \<open>The keys written to Redis and the messages sent to Kafka, read off the trace.\<close>

fun written_key :: "effect \<Rightarrow> string option" where
  "written_key (Setex key ttl v) = Some key"
| "written_key eff = None"

definition written_keys :: "world \<Rightarrow> string list" where
  "written_keys w = List.map_filter written_key (effects w)"

fun sent_to :: "effect \<Rightarrow> (string \<times> string option) option" where
  "sent_to (KafkaSend topic key v) = Some (topic, key)"
| "sent_to eff = None"

definition kafka_sends :: "world \<Rightarrow> (string \<times> string option) list" where
  "kafka_sends w = List.map_filter sent_to (effects w)"

text \<open>A concrete submission and cache content, used to evaluate the endpoint.\<close>

definition demo_wallet :: string where
  "demo_wallet = ''0x742d35Cc6634C0532925a3b844Bc9e7595f0bEb0''"

definition demo_api :: api_env where
  "demo_api = \<lparr>api_faults = (\<lambda>n. None), current_time = 1750000100,
     recover_message = (\<lambda>message signature. Inr demo_wallet),
     uuid4 = ''3f0c'', api_utcnow = ''2025-06-15T15:08:20'',
     decode_text = (\<lambda>v. Inl (Exception ''JSONDecodeError'' ''Expecting value''))\<rparr>"

definition demo_submission :: risk_analysis_request where
  "demo_submission = \<lparr>rq_commitment = ''0xc0ffee'', rq_wallet_address = demo_wallet,
     rq_signature = ''0x1b'',
     rq_message = ''Silent Risk Analysis: 0x742d35cc6634c0532925a3b844bc9e7595f0beb0 at 1750000000'',
     rq_timestamp = 1750000000, rq_force_refresh = False\<rparr>"

definition world_with_analysis :: "json \<Rightarrow> world" where
  "world_with_analysis j =
     init_world\<lparr>store := [''analysis:commitment:0xc0ffee'' \<mapsto> JsonDumps j]\<rparr>"

text \<open>
  The same submission signed too long ago, and an API process whose Redis connection is
  up but whose next command times out.
\<close>

definition stale_submission :: risk_analysis_request where
  "stale_submission = demo_submission\<lparr>rq_timestamp := 1749990000\<rparr>"

definition redis_timeout_api :: api_env where
  "redis_timeout_api = demo_api\<lparr>api_faults :=
     (\<lambda>n. if n = 1 then Some (Exception ''TimeoutError'' ''Timeout reading from socket'')
          else None)\<rparr>"

section \<open>Passport service (worker, services/passport\_service.py)\<close>

text \<open>
  What the risk-analysis handler needs from outside the process, fixed for one run: the
  fault schedule of the cache service and the producer, the data-collection and scoring
  collaborators, the block height query, the random nullifier, the outcome of the
  passport service's own Redis write, and the clock reading of the producer.
\<close>

record env =
  faults :: faults
  get_wallet_activity_summary :: "string \<Rightarrow> string \<Rightarrow> exn + (string \<times> json) list"
  calculate_comprehensive_risk ::
    "string \<Rightarrow> (string \<times> json) list \<Rightarrow> exn + (string \<times> json) list"
  get_current_block :: "exn + int"
  nullifier_hex :: string
  claim_cache_fault :: "exn option"
  utcnow :: string

definition VAULT_CONTRACT_ADDRESS :: string where
  "VAULT_CONTRACT_ADDRESS = []"

record passport_claim_data =
  pc_commitment :: string
  pc_secret :: string
  pc_nullifier :: string
  pc_wallet_address :: string
  pc_encrypted_score :: string
  pc_vault_address :: string
  pc_block_height :: int
  pc_tx_hash :: "string option"

definition asdict :: "passport_claim_data \<Rightarrow> json" where
  "asdict d = JObj [(''commitment'', JStr (pc_commitment d)), (''secret'', JStr (pc_secret d)),
                    (''nullifier'', JStr (pc_nullifier d)),
                    (''wallet_address'', JStr (pc_wallet_address d)),
                    (''encrypted_score'', JStr (pc_encrypted_score d)),
                    (''vault_address'', JStr (pc_vault_address d)),
                    (''block_height'', JInt (pc_block_height d)),
                    (''tx_hash'', opt_json (pc_tx_hash d))]"

text \<open>
  \<open>_cache_claim_data\<close> writes through the \<open>cache.redis\<close> property, which raises
  \<open>RuntimeError\<close> when the cache service is not started.
\<close>

definition cache_claim_data ::
  "env \<Rightarrow> string \<Rightarrow> passport_claim_data \<Rightarrow> world \<Rightarrow> (exn + unit) \<times> world" where
  "cache_claim_data ev wallet_address claim_data w =
     (let cache_key = ''passport:claim:'' @ lower wallet_address in
      if \<not> cache_started w
      then (Inl (Exception ''RuntimeError'' ''Cache not started. Call await cache.start() first''), w)
      else (case claim_cache_fault ev of
              Some e \<Rightarrow> (Inl e, w)
            | None \<Rightarrow>
                (Inr (), w\<lparr>store := (store w)(cache_key \<mapsto> PyStr (asdict claim_data)),
                           effects := effects w
                                      @ [Setex cache_key 86400 (PyStr (asdict claim_data))]\<rparr>)))"

text \<open>\<open>create_passport\<close>: every exception inside is logged and raised again.\<close>

definition create_passport ::
  "env \<Rightarrow> string \<Rightarrow> string \<Rightarrow> json \<Rightarrow> world \<Rightarrow> (exn + passport_claim_data) \<times> world" where
  "create_passport ev commitment wallet_address risk_score =
     (case get_current_block ev of
        Inl e \<Rightarrow> raise e
      | Inr block_height \<Rightarrow>
          (let claim_data = \<lparr>pc_commitment = commitment, pc_secret = [],
                             pc_nullifier = nullifier_hex ev,
                             pc_wallet_address = wallet_address, pc_encrypted_score = [],
                             pc_vault_address = VAULT_CONTRACT_ADDRESS,
                             pc_block_height = block_height, pc_tx_hash = None\<rparr>
           in and_then (cache_claim_data ev wallet_address claim_data) (\<lambda>u. ret claim_data)))"

section \<open>Risk-analysis handler (worker, handlers/risk\_analysis.py)\<close>

text \<open>The request message: the fields \<open>handle\<close> reads from the consumed value.\<close>

record request =
  task_id :: string
  commitment :: string
  wallet_address :: string
  force_refresh :: bool

text \<open>
  The message is a dictionary, so its \<open>get\<close> never raises. Of its entries the record
  keeps the four that \<open>handle\<close> reads.
\<close>

definition request_dict :: "request \<Rightarrow> json" where
  "request_dict req = JObj [(''task_id'', JStr (task_id req)),
                            (''commitment'', JStr (commitment req)),
                            (''wallet_address'', JStr (wallet_address req)),
                            (''force_refresh'', JBool (force_refresh req))]"

definition request_get :: "request \<Rightarrow> string \<Rightarrow> exn + json" where
  "request_get req key = py_get (request_dict req) key"

definition dict_get :: "(string \<times> json) list \<Rightarrow> string \<Rightarrow> json \<Rightarrow> json" where
  "dict_get d k dflt = (case map_of d k of None \<Rightarrow> dflt | Some v \<Rightarrow> v)"

text \<open>
  Step 4, the inner \<open>try\<close>: the passport is created and described in
  \<open>risk_analysis["passport"]\<close>; any exception is caught and recorded there instead.
\<close>

definition passport_stage ::
  "env \<Rightarrow> request \<Rightarrow> json \<Rightarrow> (string \<times> json) list \<Rightarrow> world
   \<Rightarrow> (exn + (string \<times> json) list) \<times> world" where
  "passport_stage ev req risk_score risk_analysis =
     try_except
       (and_then (create_passport ev (commitment req) (wallet_address req) risk_score)
          (\<lambda>passport_data.
             ret (AList.update ''passport''
                    (JObj [(''commitment'', JStr (pc_commitment passport_data)),
                           (''nullifier_hash'', JStr (pc_nullifier passport_data)),
                           (''vault_address'', JStr (pc_vault_address passport_data)),
                           (''block_height'', JInt (pc_block_height passport_data)),
                           (''risk_score'', risk_score),
                           (''tx_hash'', opt_json (pc_tx_hash passport_data)),
                           (''status'', JStr ''ready_to_claim'')])
                    risk_analysis)))
       (\<lambda>passport_error.
          ret (AList.update ''passport''
                 (JObj [(''status'', JStr ''generation_failed''),
                        (''error'', JStr (exn_str passport_error))])
                 risk_analysis))"

text \<open>
  The outer \<open>try\<close> block, steps 1 to 5. The statements after the last status write
  (starting the metrics task, logging) raise nothing and touch neither Redis nor Kafka.
\<close>

definition handle_body :: "env \<Rightarrow> request \<Rightarrow> world \<Rightarrow> (exn + unit) \<times> world" where
  "handle_body ev req =
     and_then (update_task_status (faults ev) (task_id req) ''processing'' 10
                 (Some ''Request submitted'')) (\<lambda>u.
     and_then (\<lambda>w. (get_wallet_activity_summary ev (wallet_address req) ''ethereum'', w))
       (\<lambda>activity_summary.
     and_then (update_task_status (faults ev) (task_id req) ''processing'' 40
                 (Some ''Fetching blockchain data'')) (\<lambda>u.
     and_then (\<lambda>w. (calculate_comprehensive_risk ev (wallet_address req) activity_summary, w))
       (\<lambda>risk_analysis.
     (let risk_score = dict_get risk_analysis ''risk_score'' (JInt 0) in
     and_then (update_task_status (faults ev) (task_id req) ''processing'' 60
                 (Some ''Calculating risk score'')) (\<lambda>u.
     and_then (passport_stage ev req risk_score risk_analysis) (\<lambda>risk_analysis.
     and_then (update_task_status (faults ev) (task_id req) ''processing'' 80
                 (Some ''Generating passport'')) (\<lambda>u.
     and_then (publish_risk_analysis_result (faults ev) (utcnow ev) (task_id req) ''completed''
                 (Some (JObj risk_analysis)) None) (\<lambda>u.
     and_then (store_task_result (faults ev) (task_id req) (JObj risk_analysis)) (\<lambda>u.
     and_then (worker_cache_commitment_analysis (faults ev) (commitment req)
                 (JObj risk_analysis) 3600) (\<lambda>u.
     update_task_status (faults ev) (task_id req) ''completed'' 100
       (Some ''Analysis complete!''))))))))))))"

text \<open>The \<open>except Exception as e\<close> block: publish the failure, then write the status.\<close>

definition handle_failure :: "env \<Rightarrow> request \<Rightarrow> exn \<Rightarrow> world \<Rightarrow> (exn + unit) \<times> world" where
  "handle_failure ev req e =
     and_then (publish_risk_analysis_result (faults ev) (utcnow ev) (task_id req) ''failed''
                 None (Some (exn_str e))) (\<lambda>u.
     update_task_status (faults ev) (task_id req) ''failed'' 0
       (Some (''Analysis failed: '' @ exn_str e)))"

definition handle :: "env \<Rightarrow> request \<Rightarrow> world \<Rightarrow> (exn + unit) \<times> world" where
  "handle ev req = try_except (handle_body ev req) (handle_failure ev req)"

text \<open>
  Reading the trace: the status writes and the status events of a task, each as
  \<open>(status, progress)\<close>, in the order they were made.
\<close>

fun status_of_value :: "redis_value \<Rightarrow> (string \<times> int) option" where
  "status_of_value (JsonDumps (JObj kvs)) =
     (case (map_of kvs ''status'', map_of kvs ''progress'') of
        (Some (JStr s), Some (JInt p)) \<Rightarrow> Some (s, p)
      | _ \<Rightarrow> None)"
| "status_of_value v = None"

fun status_write_of :: "string \<Rightarrow> effect \<Rightarrow> (string \<times> int) option" where
  "status_write_of tid (Setex key ttl v) =
     (if key = ''task:status:'' @ tid then status_of_value v else None)"
| "status_write_of tid eff = None"

fun status_event_of :: "string \<Rightarrow> effect \<Rightarrow> (string \<times> int) option" where
  "status_event_of tid (Publish channel (JsonDumps (JObj kvs))) =
     (if channel = REDIS_PUBSUB_CHANNEL \<and> map_of kvs ''task_id'' = Some (JStr tid)
      then status_of_value (JsonDumps (JObj kvs)) else None)"
| "status_event_of tid eff = None"

definition status_writes :: "string \<Rightarrow> world \<Rightarrow> (string \<times> int) list" where
  "status_writes tid w = List.map_filter (status_write_of tid) (effects w)"

definition status_events :: "string \<Rightarrow> world \<Rightarrow> (string \<times> int) list" where
  "status_events tid w = List.map_filter (status_event_of tid) (effects w)"

definition pipeline_progress :: "(string \<times> int) list" where
  "pipeline_progress = [(''processing'', 10), (''processing'', 40), (''processing'', 60),
                        (''processing'', 80), (''completed'', 100)]"

text \<open>The results the handler published to the result topic, as \<open>(status, result, error)\<close>.\<close>

fun result_of :: "string \<Rightarrow> effect \<Rightarrow> (json \<times> json \<times> json) option" where
  "result_of tid (KafkaSend topic key (JObj kvs)) =
     (if topic = KAFKA_TOPIC_RISK_RESULTS \<and> key = Some tid
      then Some (dict_get kvs ''status'' JNull, dict_get kvs ''result'' JNull,
                 dict_get kvs ''error'' JNull)
      else None)"
| "result_of tid eff = None"

definition published_results :: "string \<Rightarrow> world \<Rightarrow> (json \<times> json \<times> json) list" where
  "published_results tid w = List.map_filter (result_of tid) (effects w)"

section \<open>Reasoning about calls that may raise\<close>

text \<open>
  \<open>triple P m Q E\<close>: started in a world satisfying \<open>P\<close>, the computation \<open>m\<close> ends in
  a world satisfying \<open>Q\<close> when it returns and \<open>E\<close> when it raises.
\<close>

definition triple ::
  "('w \<Rightarrow> bool) \<Rightarrow> ('w \<Rightarrow> (exn + 'a) \<times> 'w) \<Rightarrow> ('a \<Rightarrow> 'w \<Rightarrow> bool) \<Rightarrow> ('w \<Rightarrow> bool) \<Rightarrow> bool" where
  "triple P m Q E =
     (\<forall>w. P w \<longrightarrow> (case m w of (Inr a, w') \<Rightarrow> Q a w' | (Inl e, w') \<Rightarrow> E w'))"

text \<open>
  \<open>progressed tid w0 n m w\<close>: since \<open>w0\<close>, the first \<open>n\<close> pipeline statuses of the
  task have been written and the first \<open>m\<close> published.
\<close>

definition progressed :: "string \<Rightarrow> world \<Rightarrow> nat \<Rightarrow> nat \<Rightarrow> world \<Rightarrow> bool" where
  "progressed tid w0 n m w =
     (status_writes tid w = status_writes tid w0 @ take n pipeline_progress
      \<and> status_events tid w = status_events tid w0 @ take m pipeline_progress)"

definition interrupted :: "string \<Rightarrow> world \<Rightarrow> world \<Rightarrow> bool" where
  "interrupted tid w0 w =
     (\<exists>k < 5. progressed tid w0 k k w \<or> progressed tid w0 (Suc k) k w)"

text \<open>Calls that leave the status trace of every task as it is.\<close>

definition status_neutral :: "(world \<Rightarrow> (exn + 'a) \<times> world) \<Rightarrow> bool" where
  "status_neutral m =
     (\<forall>w tid. status_writes tid (snd (m w)) = status_writes tid w
             \<and> status_events tid (snd (m w)) = status_events tid w)"


text \<open>Concrete environments of the risk-analysis handler, used to evaluate it.\<close>

definition demo_request :: request where
  "demo_request = \<lparr>task_id = ''t1'', commitment = ''0xc0ffee'',
                     wallet_address = ''0xAbCd12'', force_refresh = False\<rparr>"

definition healthy_env :: env where
  "healthy_env = \<lparr>faults = (\<lambda>n. None),
     get_wallet_activity_summary = (\<lambda>wallet network. Inr [(''total_transactions'', JInt 12)]),
     calculate_comprehensive_risk = (\<lambda>wallet summary. Inr [(''risk_score'', JInt 2500)]),
     get_current_block = Inr 19000000,
     nullifier_hex = ''9f'',
     claim_cache_fault = None,
     utcnow = ''2025-01-01T00:00:00''\<rparr>"

definition indexer_down_env :: env where
  "indexer_down_env = healthy_env\<lparr>get_wallet_activity_summary :=
     (\<lambda>wallet network. Inl (Exception ''ConnectionError'' ''rpc unreachable''))\<rparr>"

definition passport_down_env :: env where
  "passport_down_env = healthy_env\<lparr>get_current_block :=
     Inl (Exception ''RuntimeError'' ''node down'')\<rparr>"

definition broker_down_at :: "nat \<Rightarrow> faults" where
  "broker_down_at k n = (if n = k then Some (Exception ''KafkaError'' ''broker down'') else None)"

definition pubsub_down_from :: "nat \<Rightarrow> faults" where
  "pubsub_down_from k n =
     (if k \<le> n then Some (Exception ''ConnectionError'' ''pubsub down'') else None)"

text \<open>
  A consumer run to evaluate the loop on: two requests on partition 0 of the request
  topic, at offsets 7 and 8. Redis refuses the connection twice, at the calls 0 and 3 of
  the run, which both fall into the handling of the first request; from then on it is
  reachable. No call of \<open>commit()\<close> raises.
\<close>

definition second_request :: request where
  "second_request = \<lparr>task_id = ''t2'', commitment = ''0xdecaf'',
                       wallet_address = ''0xEf0123'', force_refresh = False\<rparr>"

definition redis_outage_env :: env where
  "redis_outage_env = healthy_env\<lparr>faults :=
     (\<lambda>n. if n = 0 \<or> n = 3 then Some (Exception ''ConnectionError'' ''redis unreachable'')
          else None)\<rparr>"

definition request_msg :: "nat \<Rightarrow> request \<Rightarrow> request kafka_msg" where
  "request_msg off req = \<lparr>msg_topic = ''risk-analysis-requests'', msg_partition = 0,
                           msg_offset = off, msg_key = Some (commitment req),
                           msg_value = req\<rparr>"

definition outage_run ::
  "(exn + unit) \<times> (request kafka_msg \<times> loop_event list) list \<times> consumer \<times> world" where
  "outage_run =
     start request_get [(KAFKA_TOPIC_RISK_REQUESTS, handle redis_outage_env)] None (\<lambda>n. None)
       [(True, request_msg 7 demo_request), (True, request_msg 8 second_request)]
       (init_consumer, init_world)"

section \<open>Properties\<close>

subsection \<open>C8: the freshness window of the ownership verifier\<close>

text \<open>
  C8. With \<open>age = now - timestamp\<close>, the timestamp check raises the 401 exception exactly
  when \<open>age > 300\<close> or \<open>age < -60\<close>, and returns normally otherwise. At the four
  boundary inputs: \<open>now - 301\<close> and \<open>now + 61\<close> are rejected, \<open>now - 299\<close> and
  \<open>now + 59\<close> pass.
\<close>

theorem verify_timestamp_window:
  "unauthorized (verify_timestamp now ts) = (now - ts > 300 \<or> now - ts < - 60)
   \<and> (verify_timestamp now ts = Inr ()) = (\<not> (now - ts > 300 \<or> now - ts < - 60))
   \<and> unauthorized (verify_timestamp now (now - 301))
   \<and> verify_timestamp now (now - 299) = Inr ()
   \<and> unauthorized (verify_timestamp now (now + 61))
   \<and> verify_timestamp now (now + 59) = Inr ()"
  by (simp add: verify_timestamp_def unauthorized_def Let_def
        MAX_SIGNATURE_AGE_SECONDS_def HTTP_401_UNAUTHORIZED_def)

theorem verify_timestamp_window_witness:
  "unauthorized (verify_timestamp 1750000000 1749999699)
   \<and> verify_timestamp 1750000000 1749999701 = Inr ()
   \<and> unauthorized (verify_timestamp 1750000000 1750000061)
   \<and> verify_timestamp 1750000000 1750000059 = Inr ()"
  using verify_timestamp_window [of 1750000000 1749999699]
        verify_timestamp_window [of 1750000000 1749999701]
        verify_timestamp_window [of 1750000000 1750000061]
        verify_timestamp_window [of 1750000000 1750000059]
  by simp

subsection \<open>Connection manager: auxiliary facts\<close>

lemma removeAll_Nil_iff: "(removeAll w xs = []) = (set xs \<subseteq> {w})"
  by (induction xs) auto

lemma task_has_unsubscribe:
  "task_has (unsubscribe w t m) t' w' = (task_has m t' w' \<and> \<not> (w' = w \<and> t' = t))"
  by (auto simp: task_has_def unsubscribe_def Let_def removeAll_Nil_iff split: option.splits if_splits)

lemma conn_has_unsubscribe:
  "conn_has (unsubscribe w t m) w' t' = (conn_has m w' t' \<and> \<not> (w' = w \<and> t' = t))"
  by (auto simp: conn_has_def unsubscribe_def Let_def split: option.splits if_splits)

lemma dom_subs_unsubscribe:
  "dom (connection_subscriptions (unsubscribe w t m)) = dom (connection_subscriptions m)"
  by (auto simp: unsubscribe_def Let_def split: option.splits if_splits)

lemma no_empty_unsubscribe:
  "\<forall>t'. active_connections m t' \<noteq> Some [] \<Longrightarrow> active_connections (unsubscribe w t m) t' \<noteq> Some []"
  by (auto simp: unsubscribe_def Let_def split: option.splits if_splits)

lemma unsubscribe_last:
  "active_connections m t = Some conns \<Longrightarrow> set conns = {w} \<Longrightarrow>
   active_connections (unsubscribe w t m) t = None"
  by (auto simp: unsubscribe_def Let_def removeAll_Nil_iff split: option.splits if_splits)

lemma task_has_fold_unsubscribe:
  "task_has (fold (\<lambda>t. unsubscribe w t) ts m) t' w' = (task_has m t' w' \<and> \<not> (w' = w \<and> t' \<in> set ts))"
  by (induction ts arbitrary: m) (auto simp: task_has_unsubscribe)

lemma conn_has_fold_unsubscribe:
  "conn_has (fold (\<lambda>t. unsubscribe w t) ts m) w' t' = (conn_has m w' t' \<and> \<not> (w' = w \<and> t' \<in> set ts))"
  by (induction ts arbitrary: m) (auto simp: conn_has_unsubscribe)

lemma dom_subs_fold_unsubscribe:
  "dom (connection_subscriptions (fold (\<lambda>t. unsubscribe w t) ts m)) = dom (connection_subscriptions m)"
  by (induction ts arbitrary: m) (auto simp: dom_subs_unsubscribe)

lemma no_empty_fold_unsubscribe:
  "\<forall>t'. active_connections m t' \<noteq> Some [] \<Longrightarrow>
   \<forall>t'. active_connections (fold (\<lambda>t. unsubscribe w t) ts m) t' \<noteq> Some []"
  by (induction ts arbitrary: m) (auto simp: no_empty_unsubscribe)

lemma task_has_disconnect:
  "task_has (disconnect w m) t' w' =
     (task_has m t' w' \<and> \<not> (w' = w \<and> conn_has m w t'))"
proof (cases "connection_subscriptions m w")
  case None
  then show ?thesis by (simp add: disconnect_def conn_has_def)
next
  case (Some ts)
  have "task_has (disconnect w m) t' w' = task_has (fold (\<lambda>t. unsubscribe w t) ts m) t' w'"
    using Some by (simp add: disconnect_def Let_def task_has_def)
  then show ?thesis
    using Some by (simp add: task_has_fold_unsubscribe conn_has_def)
qed

lemma conn_has_disconnect:
  "conn_has (disconnect w m) w' t' = (conn_has m w' t' \<and> w' \<noteq> w)"
  apply (cases "connection_subscriptions m w")
   apply (auto simp: disconnect_def Let_def conn_has_def split: option.splits)[1]
  apply (simp add: disconnect_def Let_def)
  apply (cases "w' = w")
  apply (simp add: conn_has_def)
  using conn_has_fold_unsubscribe[of w _ m w' t']
  apply (simp add: conn_has_def)
  done

lemma subscribe_connected:
  assumes "connection_subscriptions m w = Some ts"
  shows "fst (subscribe w t m) = Inr ()"
    and "task_has (snd (subscribe w t m)) t' w' = (task_has m t' w' \<or> (w' = w \<and> t' = t))"
    and "conn_has (snd (subscribe w t m)) w' t' = (conn_has m w' t' \<or> (w' = w \<and> t' = t))"
    and "dom (connection_subscriptions (snd (subscribe w t m))) = dom (connection_subscriptions m)"
    and "\<forall>x. active_connections m x \<noteq> Some [] \<Longrightarrow>
         active_connections (snd (subscribe w t m)) x \<noteq> Some []"
  using assms
  by (auto simp: subscribe_def Let_def task_has_def conn_has_def List.insert_def
           split: option.splits if_splits)

lemma broadcast_loop_disconnected:
  "fst (broadcast_loop send_text msg conns d out) = d"
  by (induction conns arbitrary: out) (auto simp: send_message_def split: option.splits)

lemma broadcast_keeps_manager:
  "fst (broadcast_status_update send_text t d s) = fst s"
proof (cases "active_connections (fst s) t")
  case None
  then show ?thesis by (simp add: broadcast_status_update_def)
next
  case (Some conns)
  obtain dis out' where
    r: "broadcast_loop send_text (status_update_message t d) conns [] (snd s) = (dis, out')"
    by (cases "broadcast_loop send_text (status_update_message t d) conns [] (snd s)")
  have "dis = []"
    using broadcast_loop_disconnected [of send_text "status_update_message t d" conns "[]" "snd s"] r
    by simp
  then show ?thesis
    using Some r by (simp add: broadcast_status_update_def)
qed

lemma handle_message_connected:
  assumes "connection_subscriptions m w = Some ts"
    and "\<forall>w' t'. task_has m t' w' = conn_has m w' t'"
    and "\<forall>x. active_connections m x \<noteq> Some []"
    and "handle_message send_text w msg (m, out) = (m', out')"
  shows "(\<forall>w' t'. task_has m' t' w' = conn_has m' w' t')
       \<and> (\<forall>x. active_connections m' x \<noteq> Some [])
       \<and> dom (connection_subscriptions m') = dom (connection_subscriptions m)"
proof (cases msg)
  case (Subscribe t)
  have m': "m' = snd (subscribe w t m)"
    using assms(4) Subscribe by (auto split: prod.splits sum.splits)
  show ?thesis
    unfolding m' using subscribe_connected [OF assms(1)] assms(2,3) by simp
next
  case (Unsubscribe t)
  have m': "m' = unsubscribe w t m"
    using assms(4) Unsubscribe by (auto simp: Let_def)
  show ?thesis
    unfolding m'
    using assms(2,3) by (simp add: task_has_unsubscribe conn_has_unsubscribe
        dom_subs_unsubscribe no_empty_unsubscribe)
next
  case (Malformed e)
  then have "m' = m" using assms(4) by auto
  then show ?thesis using assms(2,3) by simp
qed

lemma disconnect_invariant:
  assumes "\<forall>w' t'. task_has m t' w' = conn_has m w' t'"
    and "\<forall>x. active_connections m x \<noteq> Some []"
  shows "(\<forall>w' t'. task_has (disconnect w m) t' w' = conn_has (disconnect w m) w' t')"
    and "(\<forall>x. active_connections (disconnect w m) x \<noteq> Some [])"
    and "dom (connection_subscriptions (disconnect w m)) = dom (connection_subscriptions m) - {w}"
proof -
  show "\<forall>w' t'. task_has (disconnect w m) t' w' = conn_has (disconnect w m) w' t'"
    using assms(1) by (auto simp: task_has_disconnect conn_has_disconnect)
  show "\<forall>x. active_connections (disconnect w m) x \<noteq> Some []"
  proof (cases "connection_subscriptions m w")
    case None
    then show ?thesis using assms(2) by (simp add: disconnect_def)
  next
    case (Some ts)
    then show ?thesis
      using no_empty_fold_unsubscribe [OF assms(2), of w ts]
      by (simp add: disconnect_def Let_def)
  qed
  show "dom (connection_subscriptions (disconnect w m)) = dom (connection_subscriptions m) - {w}"
    using dom_subs_fold_unsubscribe [of w _ m]
    by (auto simp: disconnect_def Let_def split: option.splits)
qed

lemma disconnect_last:
  assumes "\<forall>w' t'. task_has m t' w' = conn_has m w' t'"
    and "\<forall>x. active_connections m x \<noteq> Some []"
    and "active_connections m t = Some conns" and "set conns = {w}"
  shows "active_connections (disconnect w m) t = None"
proof (rule ccontr)
  assume "active_connections (disconnect w m) t \<noteq> None"
  then obtain c where c: "active_connections (disconnect w m) t = Some c" by auto
  have "c \<noteq> []"
    using disconnect_invariant(2) [OF assms(1,2), of w] c by auto
  then obtain w' where "w' \<in> set c" by (cases c) auto
  then have "task_has (disconnect w m) t w'" using c by (simp add: task_has_def)
  then have "task_has m t w'" and "\<not> (w' = w \<and> conn_has m w t)"
    by (simp_all add: task_has_disconnect)
  moreover have "w' = w" using \<open>task_has m t w'\<close> assms(3,4) by (simp add: task_has_def)
  moreover have "conn_has m w t"
  proof -
    have "task_has m t w" using assms(3,4) by (simp add: task_has_def)
    then show ?thesis using assms(1) by simp
  qed
  ultimately show False by simp
qed

lemma reachable_demo_service: "reachable demo_service"
proof -
  let ?s1 = "init_service\<lparr>mgr := init_manager\<lparr>connection_subscriptions := [1 \<mapsto> []]\<rparr>,
                           endpoints := insert 1 (endpoints init_service)\<rparr>"
  have r1: "reachable ?s1"
    by (rule Accepted [OF Start, where accept = None])
       (simp_all add: unreferenced_def connect_def init_service_def init_manager_def)
  have h: "handle_message failing_first 1 (Subscribe ''task-a'')
             (mgr ?s1, sent ?s1) = (demo_manager, [])"
    by (simp add: subscribe_def send_message_def init_service_def init_manager_def
          demo_manager_def failing_first_def Let_def)
  have "reachable (?s1\<lparr>mgr := demo_manager, sent := []\<rparr>)"
    by (rule Received [OF r1 _ h]) (simp add: init_service_def)
  moreover have "?s1\<lparr>mgr := demo_manager, sent := []\<rparr> = demo_service"
    by (simp add: demo_service_def init_service_def)
  ultimately show ?thesis by simp
qed

subsection \<open>C9: the two subscription maps stay mutual inverses, empty entries are pruned\<close>

text \<open>
  C9. In every state the service can reach by connections being accepted or refused,
  client messages handled, endpoints closing and status events broadcast: a socket is in a
  task's subscriber set if and only if the task is in the socket's subscription set; no
  task is mapped to an empty subscriber set; and when a task's only subscriber
  unsubscribes or disconnects, the task's entry is removed from the map.
\<close>

theorem subscription_maps_consistent:
  assumes "reachable s"
  shows "(\<forall>w t. task_has (mgr s) t w = conn_has (mgr s) w t)
       \<and> (\<forall>t. active_connections (mgr s) t \<noteq> Some [])
       \<and> (\<forall>w t conns. active_connections (mgr s) t = Some conns \<and> set conns = {w}
             \<longrightarrow> active_connections (unsubscribe w t (mgr s)) t = None
               \<and> active_connections (disconnect w (mgr s)) t = None)"
proof -
  have inv: "(\<forall>w t. task_has (mgr s) t w = conn_has (mgr s) w t)
       \<and> (\<forall>t. active_connections (mgr s) t \<noteq> Some [])
       \<and> endpoints s \<subseteq> dom (connection_subscriptions (mgr s))"
    using assms
  proof (induction rule: reachable.induct)
    case Start
    show ?case
      by (simp add: init_service_def init_manager_def task_has_def conn_has_def)
  next
    case (Accepted s websocket accept m')
    have m': "m' = (mgr s)\<lparr>connection_subscriptions :=
                 (connection_subscriptions (mgr s))(websocket \<mapsto> [])\<rparr>"
      using Accepted.hyps(3) by (auto simp: connect_def split: option.splits)
    have fresh: "\<And>t. \<not> task_has (mgr s) t websocket"
      using Accepted.hyps(2) by (auto simp: unreferenced_def task_has_def ran_def split: option.splits)
    show ?case
      using Accepted.IH fresh unfolding m'
      by (auto simp: task_has_def conn_has_def)
  next
    case (Refused s websocket accept e m')
    have "m' = mgr s"
      using Refused.hyps(3) by (auto simp: connect_def split: option.splits)
    then show ?case using Refused.IH by simp
  next
    case (Received s websocket send_text msg m' out')
    obtain ts where ts: "connection_subscriptions (mgr s) websocket = Some ts"
      using Received.IH Received.hyps(2) by auto
    show ?case
      using handle_message_connected [OF ts _ _ Received.hyps(3)] Received.IH by simp
  next
    case (Closed s websocket)
    show ?case
      using disconnect_invariant [of "mgr s" websocket] Closed.IH by auto
  next
    case (Event s send_text task_id status_data m' out')
    have "m' = mgr s"
      using broadcast_keeps_manager [of send_text task_id status_data "(mgr s, sent s)"]
        Event.hyps(2) by simp
    then show ?case using Event.IH by simp
  qed
  show ?thesis
    using inv unsubscribe_last disconnect_last by blast
qed

theorem subscription_maps_consistent_witness:
  "reachable demo_service
   \<and> task_has (mgr demo_service) ''task-a'' 1 = conn_has (mgr demo_service) 1 ''task-a''
   \<and> active_connections (mgr demo_service) ''task-a'' = Some [1]
   \<and> active_connections (unsubscribe 1 ''task-a'' (mgr demo_service)) ''task-a'' = None
   \<and> active_connections (disconnect 1 (mgr demo_service)) ''task-a'' = None"
proof -
  have a: "active_connections (mgr demo_service) ''task-a'' = Some [1] \<and> set [1::nat] = {1}"
    by (simp add: demo_service_def demo_manager_def)
  show ?thesis
    using subscription_maps_consistent [OF reachable_demo_service] a reachable_demo_service
    by blast
qed

subsection \<open>C4: a failed send does not remove the connection\<close>

text \<open>
  C4. Two sockets are subscribed to a task and sending fails on the first. The broadcast
  delivers the event to the second socket, but the first socket is still in the task's
  subscriber set and still has its subscription entry afterwards: \<open>send_message\<close>
  has swallowed the exception, so the broadcast loop never records the socket as
  disconnected.
\<close>

theorem broadcast_keeps_failed_connection:
  "broadcast_status_update failing_first ''task-a'' (JObj [(''status'', JStr ''processing'')])
     (two_subscribers, [])
   = (two_subscribers,
      [(2, status_update_message ''task-a'' (JObj [(''status'', JStr ''processing'')]))])"
  by (simp add: broadcast_status_update_def two_subscribers_def failing_first_def
        send_message_def)

subsection \<open>Consumer loop: auxiliary facts\<close>

text \<open>
  Within the iteration of a message, \<open>commit()\<close> is called exactly when the handler
  returned and the success log did not raise; after a handler that raised it is not called.
\<close>

lemma consume_one_events:
  assumes "map_of handlers (msg_topic msg) = Some h"
    and "consume_one value_get handlers fl msg cw = (evs, cw')"
  shows "(CommitCalled \<in> set evs)
           = (HandlerReturned \<in> set evs \<and> (\<forall>e. LogRaised e \<notin> set evs))
       \<and> (\<forall>e. HandlerRaised e \<in> set evs \<longrightarrow> CommitCalled \<notin> set evs)"
proof -
  obtain r w1 where hr: "h (msg_value msg) (snd cw) = (r, w1)"
    by (cases "h (msg_value msg) (snd cw)")
  show ?thesis
  proof (cases r)
    case (Inl e)
    then show ?thesis
      using assms hr by (auto simp: consume_one_def process_message_def)
  next
    case (Inr u)
    show ?thesis
    proof (cases "value_get (msg_value msg) ''task_id''")
      case (Inl e)
      then show ?thesis
        using assms hr Inr by (auto simp: consume_one_def process_message_def)
    next
      case got: (Inr t)
      obtain c c' where cr: "commit fl (fst cw) = (c, c')" by (cases "commit fl (fst cw)")
      show ?thesis
        using assms hr Inr got cr
        by (cases c) (auto simp: consume_one_def process_message_def)
    qed
  qed
qed

lemma consume_loop_events:
  assumes "\<forall>(running, msg) \<in> set items. map_of handlers (msg_topic msg) \<noteq> None"
    and "(m, evs) \<in> set (fst (consume_loop value_get handlers fl items cw))"
  shows "(CommitCalled \<in> set evs)
           = (HandlerReturned \<in> set evs \<and> (\<forall>e. LogRaised e \<notin> set evs))
       \<and> (\<forall>e. HandlerRaised e \<in> set evs \<longrightarrow> CommitCalled \<notin> set evs)"
  using assms
proof (induction items arbitrary: cw)
  case Nil
  then show ?case by simp
next
  case (Cons item items)
  obtain running msg where item: "item = (running, msg)" by (cases item)
  show ?case
  proof (cases running)
    case False
    then show ?thesis using Cons.prems(2) item by simp
  next
    case True
    obtain evs1 cw1 where one: "consume_one value_get handlers fl msg
                                  (yielded msg (fst cw), snd cw) = (evs1, cw1)"
      by (cases "consume_one value_get handlers fl msg (yielded msg (fst cw), snd cw)")
    obtain j cw2 where rest: "consume_loop value_get handlers fl items cw1 = (j, cw2)"
      by (cases "consume_loop value_get handlers fl items cw1")
    obtain h where h: "map_of handlers (msg_topic msg) = Some h"
      using Cons.prems(1) item by auto
    from Cons.prems(2) item True one rest
    consider "(m, evs) = (msg, evs1)" | "(m, evs) \<in> set j" by auto
    then show ?thesis
    proof cases
      case 1
      then have e: "evs = evs1" by simp
      show ?thesis
        unfolding e by (rule consume_one_events [OF h one])
    next
      case 2
      have sub: "\<forall>(running, msg) \<in> set items. map_of handlers (msg_topic msg) \<noteq> None"
        using Cons.prems(1) by simp
      have "(m, evs) \<in> set (fst (consume_loop value_get handlers fl items cw1))"
        using 2 rest by simp
      then show ?thesis by (rule Cons.IH [OF sub])
    qed
  qed
qed

lemma map_of_topics: "t \<in> set (map fst handlers) \<Longrightarrow> map_of handlers t \<noteq> None"
  by (induction handlers) auto

lemma commit_called_iff_processed:
  assumes "(m, evs) \<in> set (fst (snd (start value_get handlers consumer_start fl on_broker cw)))"
  shows "(CommitCalled \<in> set evs)
           = (HandlerReturned \<in> set evs \<and> (\<forall>e. LogRaised e \<notin> set evs))
       \<and> (\<forall>e. HandlerRaised e \<in> set evs \<longrightarrow> CommitCalled \<notin> set evs)"
proof -
  let ?items = "filter (\<lambda>(running, msg). msg_topic msg \<in> set (map fst handlers)) on_broker"
  have sub: "\<forall>(running, msg) \<in> set ?items. map_of handlers (msg_topic msg) \<noteq> None"
    using map_of_topics by fastforce
  show ?thesis
  proof (cases "handlers = [] \<or> consumer_start \<noteq> None")
    case True
    then have "fst (snd (start value_get handlers consumer_start fl on_broker cw)) = []"
      by (auto simp: start_def Let_def)
    then show ?thesis using assms by simp
  next
    case False
    then have j: "fst (snd (start value_get handlers consumer_start fl on_broker cw))
               = fst (consume_loop value_get handlers fl ?items cw)"
      by (auto simp: start_def Let_def split: prod.splits)
    show ?thesis
      using consume_loop_events [OF sub, of m evs value_get fl cw] assms unfolding j by blast
  qed
qed

text \<open>
  A value that is not a dictionary: the handler may return, but the success log raises
  and \<open>commit()\<close> is not called.
\<close>

lemma success_log_failure_skips_commit:
  "fst (consume_one py_get [(''results'', (\<lambda>v w. (Inr (), w)))] (\<lambda>n. None)
          \<lparr>msg_topic = ''results'', msg_partition = 0, msg_offset = 3, msg_key = None,
           msg_value = JList []\<rparr> (init_consumer, ()))
   = [HandlerReturned,
      LogRaised (Exception ''AttributeError''
        ([CHR 0x27] @ ''list'' @ [CHR 0x27] @ '' object has no attribute ''
         @ [CHR 0x27] @ ''get'' @ [CHR 0x27])),
      ProcessingFailed (Exception ''AttributeError''
        ([CHR 0x27] @ ''list'' @ [CHR 0x27] @ '' object has no attribute ''
         @ [CHR 0x27] @ ''get'' @ [CHR 0x27]))]"
  by (simp add: consume_one_def process_message_def)

text \<open>
  A call of \<open>commit()\<close> that returns commits the position of every partition, whichever
  message moved it there.
\<close>

lemma commit_covers_position:
  assumes "commit fl c = (Inr (), c')" and "position c tp = Some n"
  shows "committed c' tp = Some n"
  using assms by (auto simp: commit_def split: option.splits)

lemma commit_after_return:
  assumes "handler (msg_value msg) w = (Inr (), w')"
    and "value_get (msg_value msg) ''task_id'' = Inr logged"
  shows "CommitCalled
           \<in> set (fst (consume_one value_get [(msg_topic msg, handler)] fl msg (yielded msg c, w)))"
    and "fl (commit_calls c) = None \<Longrightarrow>
         committed (fst (snd (consume_one value_get [(msg_topic msg, handler)] fl msg
                                (yielded msg c, w))))
           (msg_topic msg, msg_partition msg) = Some (Suc (msg_offset msg))"
  using assms
  by (simp_all add: consume_one_def process_message_def commit_def yielded_def
        split: option.splits)

subsection \<open>Risk-analysis handler: auxiliary facts\<close>

lemma tripleD:
  "triple P m Q E \<Longrightarrow> P w \<Longrightarrow> (case m w of (Inl e, w') \<Rightarrow> E w' | (Inr a, w') \<Rightarrow> Q a w')"
  by (simp add: triple_def)

lemma triple_and_then:
  assumes "triple P m Q E" and "\<And>a. triple (Q a) (f a) R E"
  shows "triple P (and_then m f) R E"
  using assms unfolding triple_def and_then_def
  by (fastforce split: prod.splits sum.splits)

lemma map_filter_append:
  "List.map_filter f (xs @ ys) = List.map_filter f xs @ List.map_filter f ys"
  by (simp add: List.map_filter_def)

lemma status_writes_append:
  "effects w' = effects w @ es \<Longrightarrow>
   status_writes tid w' = status_writes tid w @ List.map_filter (status_write_of tid) es"
  by (simp add: status_writes_def map_filter_append)

lemma status_events_append:
  "effects w' = effects w @ es \<Longrightarrow>
   status_events tid w' = status_events tid w @ List.map_filter (status_event_of tid) es"
  by (simp add: status_events_def map_filter_append)

lemma update_task_status_effects:
  assumes "update_task_status fl tid st p msg w = (r, w')"
  shows "(r = Inr () \<and> (\<exists>v v'. effects w' = effects w @ [Setex (''task:status:'' @ tid) 3600 v,
                                                         Publish REDIS_PUBSUB_CHANNEL v']
              \<and> status_write_of tid (Setex (''task:status:'' @ tid) 3600 v) = Some (st, p)
              \<and> status_event_of tid (Publish REDIS_PUBSUB_CHANNEL v') = Some (st, p)))
       \<or> (\<exists>e. r = Inl e \<and> (\<exists>v. effects w' = effects w @ [Setex (''task:status:'' @ tid) 3600 v]
              \<and> status_write_of tid (Setex (''task:status:'' @ tid) 3600 v) = Some (st, p)))
       \<or> (\<exists>e. r = Inl e \<and> effects w' = effects w)"
  using assms
  by (auto simp: update_task_status_def and_then_def cache_start_def external_def
        redis_setex_def redis_publish_def Let_def REDIS_PUBSUB_CHANNEL_def
        split: option.splits if_splits)


lemma update_task_status_progress:
  assumes "update_task_status fl tid st p msg w = (r, w')"
  shows "(r = Inr () \<and> status_writes tid w' = status_writes tid w @ [(st, p)]
                    \<and> status_events tid w' = status_events tid w @ [(st, p)])
       \<or> (r \<noteq> Inr () \<and> status_writes tid w' = status_writes tid w @ [(st, p)]
                    \<and> status_events tid w' = status_events tid w)
       \<or> (r \<noteq> Inr () \<and> status_writes tid w' = status_writes tid w
                    \<and> status_events tid w' = status_events tid w)"
proof -
  from update_task_status_effects [OF assms]
  consider (ok) v v' where "r = Inr ()"
      "effects w' = effects w @ [Setex (''task:status:'' @ tid) 3600 v, Publish REDIS_PUBSUB_CHANNEL v']"
      "status_write_of tid (Setex (''task:status:'' @ tid) 3600 v) = Some (st, p)"
      "status_event_of tid (Publish REDIS_PUBSUB_CHANNEL v') = Some (st, p)"
    | (written) e v where "r = Inl e"
      "effects w' = effects w @ [Setex (''task:status:'' @ tid) 3600 v]"
      "status_write_of tid (Setex (''task:status:'' @ tid) 3600 v) = Some (st, p)"
    | (nothing) e where "r = Inl e" "effects w' = effects w"
    by blast
  then show ?thesis
  proof cases
    case ok
    have "status_writes tid w' = status_writes tid w @ [(st, p)]"
      using status_writes_append [OF ok(2), of tid] ok(3)
      by (simp del: status_write_of.simps(1))
    moreover have "status_events tid w' = status_events tid w @ [(st, p)]"
      using status_events_append [OF ok(2), of tid] ok(4)
      by (simp del: status_event_of.simps(1))
    ultimately show ?thesis using ok(1) by simp
  next
    case written
    have "status_writes tid w' = status_writes tid w @ [(st, p)]"
      using status_writes_append [OF written(2), of tid] written(3)
      by (simp del: status_write_of.simps(1))
    moreover have "status_events tid w' = status_events tid w"
      using status_events_append [OF written(2), of tid]
      by simp
    ultimately show ?thesis using written(1) by simp
  next
    case nothing
    then show ?thesis by (simp add: status_writes_def status_events_def)
  qed
qed

lemma status_neutral_result:
  "status_neutral (publish_risk_analysis_result fl now tid st res err)"
  by (auto simp: status_neutral_def publish_risk_analysis_result_def and_then_def
        producer_start_def external_def kafka_send_def Let_def status_writes_def
        status_events_def map_filter_append
        split: option.splits if_splits)

lemma status_neutral_store: "status_neutral (store_task_result fl tid res)"
  by (auto simp: status_neutral_def store_task_result_def and_then_def
        cache_start_def external_def redis_setex_def Let_def status_writes_def
        status_events_def map_filter_append
        split: option.splits if_splits)

lemma status_neutral_cache:
  "status_neutral (worker_cache_commitment_analysis fl c res ttl)"
  by (auto simp: status_neutral_def worker_cache_commitment_analysis_def and_then_def
        cache_start_def external_def redis_setex_def Let_def status_writes_def
        status_events_def map_filter_append
        split: option.splits if_splits)

lemma status_neutral_passport: "status_neutral (passport_stage ev req rs ra)"
  by (auto simp: status_neutral_def passport_stage_def create_passport_def
        cache_claim_data_def and_then_def try_except_def ret_def raise_def Let_def
        status_writes_def status_events_def map_filter_append
        split: option.splits if_splits sum.splits)


lemma status_neutral_pure: "status_neutral (\<lambda>w. (r, w))"
  by (simp add: status_neutral_def)

lemma triple_update:
  assumes "k < 5" and "pipeline_progress ! k = (st, p)"
  shows "triple (progressed tid w0 k k) (update_task_status fl tid st p msg)
           (\<lambda>u. progressed tid w0 (Suc k) (Suc k)) (interrupted tid w0)"
proof -
  have len: "k < length pipeline_progress"
    using assms(1) by (simp add: pipeline_progress_def)
  have tk: "take (Suc k) pipeline_progress = take k pipeline_progress @ [(st, p)]"
    using take_Suc_conv_app_nth [OF len] assms(2) by simp
  show ?thesis
    unfolding triple_def
  proof (intro allI impI)
    fix w assume P: "progressed tid w0 k k w"
    obtain r w' where run: "update_task_status fl tid st p msg w = (r, w')"
      by (cases "update_task_status fl tid st p msg w")
    from update_task_status_progress [OF run]
    show "case update_task_status fl tid st p msg w of
            (Inl e, w') \<Rightarrow> interrupted tid w0 w'
          | (Inr a, w') \<Rightarrow> progressed tid w0 (Suc k) (Suc k) w'"
      using P assms(1) run tk
      by (cases r) (auto simp: progressed_def interrupted_def)
  qed
qed

lemma triple_neutral:
  assumes "status_neutral m" and "k < 5"
  shows "triple (progressed tid w0 k k) m (\<lambda>a. progressed tid w0 k k) (interrupted tid w0)"
  unfolding triple_def
proof (intro allI impI)
  fix w assume P: "progressed tid w0 k k w"
  have "progressed tid w0 k k (snd (m w))"
    using assms(1) P by (simp add: status_neutral_def progressed_def)
  then show "case m w of (Inl e, w') \<Rightarrow> interrupted tid w0 w'
                       | (Inr a, w') \<Rightarrow> progressed tid w0 k k w'"
    using assms(2) by (auto simp: interrupted_def split: prod.splits sum.splits)
qed

lemma handle_body_progress:
  "triple (progressed (task_id req) w0 0 0) (handle_body ev req)
     (\<lambda>u. progressed (task_id req) w0 (Suc (Suc (Suc (Suc (Suc 0))))) (Suc (Suc (Suc (Suc (Suc 0))))))
     (interrupted (task_id req) w0)"
  unfolding handle_body_def Let_def
  apply (rule triple_and_then [OF triple_update], simp, simp add: pipeline_progress_def)
  apply (rule triple_and_then [OF triple_neutral [OF status_neutral_pure]], simp)
  apply (rule triple_and_then [OF triple_update], simp, simp add: pipeline_progress_def)
  apply (rule triple_and_then [OF triple_neutral [OF status_neutral_pure]], simp)
  apply (rule triple_and_then [OF triple_update], simp, simp add: pipeline_progress_def)
  apply (rule triple_and_then [OF triple_neutral [OF status_neutral_passport]], simp)
  apply (rule triple_and_then [OF triple_update], simp, simp add: pipeline_progress_def)
  apply (rule triple_and_then [OF triple_neutral [OF status_neutral_result]], simp)
  apply (rule triple_and_then [OF triple_neutral [OF status_neutral_store]], simp)
  apply (rule triple_and_then [OF triple_neutral [OF status_neutral_cache]], simp)
  apply (rule triple_update, simp, simp add: pipeline_progress_def)
  done


lemmas run_defs =
  handle_def handle_body_def handle_failure_def
  update_task_status_def and_then_def try_except_def ret_def raise_def cache_start_def
  producer_start_def external_def redis_setex_def redis_publish_def kafka_send_def
  publish_risk_analysis_result_def store_task_result_def worker_cache_commitment_analysis_def
  passport_stage_def create_passport_def cache_claim_data_def Let_def dict_get_def

lemmas demo_defs =
  demo_request_def healthy_env_def indexer_down_env_def passport_down_env_def
  broker_down_at_def pubsub_down_from_def init_world_def

lemma handle_failure_progress:
  assumes "handle_failure ev req e w1 = (r, w')"
  shows "(r = Inr () \<and> status_writes (task_id req) w' = status_writes (task_id req) w1 @ [(''failed'', 0)]
                    \<and> status_events (task_id req) w' = status_events (task_id req) w1 @ [(''failed'', 0)])
       \<or> (r \<noteq> Inr () \<and> status_writes (task_id req) w' = status_writes (task_id req) w1 @ [(''failed'', 0)]
                    \<and> status_events (task_id req) w' = status_events (task_id req) w1)
       \<or> (r \<noteq> Inr () \<and> status_writes (task_id req) w' = status_writes (task_id req) w1
                    \<and> status_events (task_id req) w' = status_events (task_id req) w1)"
proof -
  let ?pub = "publish_risk_analysis_result (faults ev) (utcnow ev) (task_id req) ''failed''
                 None (Some (exn_str e))"
  obtain rp wp where pub: "?pub w1 = (rp, wp)" by (cases "?pub w1")
  have same: "status_writes (task_id req) wp = status_writes (task_id req) w1"
             "status_events (task_id req) wp = status_events (task_id req) w1"
    using status_neutral_result [of "faults ev" "utcnow ev" "task_id req" "''failed''" None
            "Some (exn_str e)"] pub
    by (auto simp: status_neutral_def dest: spec [of _ w1])
  show ?thesis
  proof (cases rp)
    case (Inl e')
    then have "r = Inl e'" "w' = wp"
      using assms pub by (simp_all add: handle_failure_def and_then_def)
    then show ?thesis using same by simp
  next
    case (Inr u)
    then have "update_task_status (faults ev) (task_id req) ''failed'' 0
                 (Some (''Analysis failed: '' @ exn_str e)) wp = (r, w')"
      using assms pub by (simp add: handle_failure_def and_then_def)
    from update_task_status_progress [OF this] show ?thesis
      using same by simp
  qed
qed

lemma sorted_progress_prefix: "sorted (map snd (take n pipeline_progress))"
proof -
  have "sorted (map snd pipeline_progress)" by (simp add: pipeline_progress_def)
  then have "sorted (take n (map snd pipeline_progress))" by (rule sorted_wrt_take)
  then show ?thesis by (simp add: take_map)
qed

subsection \<open>C2: the progress values of a task\<close>

text \<open>
  C2, as the code has it. The status writes the handler makes for its task are the first
  \<open>n\<close> of (processing, 10), (processing, 40), (processing, 60), (processing, 80),
  (completed, 100), whose progress values are non-decreasing, followed by at most one
  write (failed, 0); the status events it publishes are the first \<open>m \<le> n\<close> of the
  same list, followed by the failed event only if the failed status was written. When no
  exception reaches the outer handler, all five are written and published, ending at
  (completed, 100). When one does and the handler returns, the last write and the last
  event are (failed, 0): the failure write resets the progress to 0.
\<close>

theorem progress_sequence_of_handle:
  assumes "handle ev req w = (r, w')"
  shows "\<exists>n m F G. m \<le> n \<and> n \<le> 5 \<and> (F = [] \<or> F = [(''failed'', 0)]) \<and> (G = [] \<or> G = F)
         \<and> status_writes (task_id req) w'
             = status_writes (task_id req) w @ take n pipeline_progress @ F
         \<and> status_events (task_id req) w'
             = status_events (task_id req) w @ take m pipeline_progress @ G
         \<and> sorted (map snd (take n pipeline_progress))
         \<and> (fst (handle_body ev req w) = Inr () \<longrightarrow> n = 5 \<and> m = 5 \<and> F = [] \<and> r = Inr ())
         \<and> (fst (handle_body ev req w) \<noteq> Inr () \<and> r = Inr () \<longrightarrow> F = [(''failed'', 0)] \<and> G = F)"
proof -
  let ?t = "task_id req"
  obtain rb w1 where body: "handle_body ev req w = (rb, w1)" by (cases "handle_body ev req w")
  have start: "progressed ?t w 0 0 w" by (simp add: progressed_def)
  have post: "case handle_body ev req w of
                (Inl e, w1) \<Rightarrow> interrupted ?t w w1
              | (Inr a, w1) \<Rightarrow> progressed ?t w (Suc (Suc (Suc (Suc (Suc 0))))) (Suc (Suc (Suc (Suc (Suc 0))))) w1"
    by (rule tripleD [OF handle_body_progress start])
  show ?thesis
  proof (cases rb)
    case (Inr u)
    then have fin: "progressed ?t w 5 5 w1"
      using post body by (simp add: eval_nat_numeral)
    have "r = Inr ()" "w' = w1"
      using assms body Inr by (simp_all add: handle_def try_except_def)
    then show ?thesis
      using fin body Inr sorted_progress_prefix [of 5]
      by (intro exI [of _ 5] exI [of _ "[]"]) (simp add: progressed_def)
  next
    case (Inl e)
    then obtain k where k: "k < 5"
      "progressed ?t w k k w1 \<or> progressed ?t w (Suc k) k w1"
      using post body by (auto simp: interrupted_def)
    have "\<exists>n. n \<le> 5 \<and> k \<le> n
            \<and> status_writes ?t w1 = status_writes ?t w @ take n pipeline_progress
            \<and> status_events ?t w1 = status_events ?t w @ take k pipeline_progress"
    proof (cases "progressed ?t w k k w1")
      case True
      then show ?thesis using k(1) by (intro exI [of _ k]) (simp add: progressed_def)
    next
      case False
      then have "progressed ?t w (Suc k) k w1" using k(2) by simp
      then show ?thesis using k(1) by (intro exI [of _ "Suc k"]) (simp add: progressed_def)
    qed
    then obtain n where n: "n \<le> 5" "k \<le> n"
      "status_writes ?t w1 = status_writes ?t w @ take n pipeline_progress"
      "status_events ?t w1 = status_events ?t w @ take k pipeline_progress"
      by blast
    have fail: "handle_failure ev req e w1 = (r, w')"
      using assms body Inl by (simp add: handle_def try_except_def)
    have nb: "fst (handle_body ev req w) \<noteq> Inr ()" using body Inl by simp
    from handle_failure_progress [OF fail] show ?thesis
    proof (elim disjE conjE)
      assume "r = Inr ()"
        "status_writes ?t w' = status_writes ?t w1 @ [(''failed'', 0)]"
        "status_events ?t w' = status_events ?t w1 @ [(''failed'', 0)]"
      then show ?thesis
        using n nb sorted_progress_prefix [of n]
        by (intro exI [of _ n] exI [of _ k] exI [of _ "[(''failed'', 0)]"]) simp
    next
      assume "r \<noteq> Inr ()"
        "status_writes ?t w' = status_writes ?t w1 @ [(''failed'', 0)]"
        "status_events ?t w' = status_events ?t w1"
      then show ?thesis
        using n nb sorted_progress_prefix [of n]
        by (intro exI [of _ n] exI [of _ k] exI [of _ "[(''failed'', 0)]"] exI [of _ "[]"]) simp
    next
      assume "r \<noteq> Inr ()"
        "status_writes ?t w' = status_writes ?t w1"
        "status_events ?t w' = status_events ?t w1"
      then show ?thesis
        using n nb sorted_progress_prefix [of n]
        by (intro exI [of _ n] exI [of _ k] exI [of _ "[]"]) simp
    qed
  qed
qed

theorem progress_sequence_of_handle_witness:
  "fst (handle healthy_env demo_request init_world) = Inr ()
   \<and> status_writes ''t1'' (snd (handle healthy_env demo_request init_world)) = pipeline_progress
   \<and> status_events ''t1'' (snd (handle healthy_env demo_request init_world)) = pipeline_progress"
proof -
  have run: "handle healthy_env demo_request init_world
             = (fst (handle healthy_env demo_request init_world),
                snd (handle healthy_env demo_request init_world))"
    by simp
  have eval: "fst (handle healthy_env demo_request init_world) = Inr ()
      \<and> status_writes ''t1'' (snd (handle healthy_env demo_request init_world)) = pipeline_progress
      \<and> status_events ''t1'' (snd (handle healthy_env demo_request init_world)) = pipeline_progress"
    by (simp add: run_defs demo_defs status_writes_def status_events_def
          pipeline_progress_def REDIS_PUBSUB_CHANNEL_def)
  from progress_sequence_of_handle [OF run]
  obtain n where "n \<le> 5"
    and "sorted (map snd (take n pipeline_progress))"
    by blast
  with eval show ?thesis by simp
qed

text \<open>
  The claim as stated fails when data collection raises after the first status write:
  the task's writes are (processing, 10) and then (failed, 0).
\<close>

theorem progress_drops_on_failure:
  "status_writes ''t1'' (snd (handle indexer_down_env demo_request init_world))
     = [(''processing'', 10), (''failed'', 0)]
   \<and> \<not> sorted (map snd (status_writes ''t1''
                           (snd (handle indexer_down_env demo_request init_world))))"
  by (simp add: run_defs demo_defs status_writes_def)

subsection \<open>Risk-analysis handler: the run without infrastructure faults\<close>

lemma create_passport_raises_unchanged:
  "fst (create_passport ev c wa rs w) = Inl e \<Longrightarrow> create_passport ev c wa rs w = (Inl e, w)"
  by (auto simp: create_passport_def cache_claim_data_def and_then_def raise_def ret_def Let_def
        split: sum.splits if_splits option.splits)

lemma passport_stage_failed:
  assumes "fst (create_passport ev (commitment req) (wallet_address req) rs w) = Inl e"
  shows "passport_stage ev req rs ra w
         = (Inr (AList.update ''passport''
                   (JObj [(''status'', JStr ''generation_failed''),
                          (''error'', JStr (exn_str e))]) ra), w)"
  using create_passport_raises_unchanged [OF assms]
  by (simp add: passport_stage_def try_except_def and_then_def ret_def)

lemma passport_stage_returns:
  "\<exists>ra' w'. passport_stage ev req rs ra w = (Inr ra', w')"
  by (auto simp: passport_stage_def try_except_def and_then_def ret_def
        split: prod.splits sum.splits)

text \<open>The calls of the handler when no Redis or Kafka call fails.\<close>

lemma update_task_status_healthy:
  assumes "\<forall>n. fl n = None"
  shows "\<exists>w'. update_task_status fl tid st p (Some msg) w = (Inr (), w')
     \<and> cache_started w' \<and> producer_started w' = producer_started w
     \<and> store w' = (store w)(''task:status:'' @ tid \<mapsto>
          JsonDumps (JObj [(''status'', JStr st), (''progress'', JInt p), (''message'', JStr msg)]))
     \<and> published_results t w' = published_results t w
     \<and> status_writes tid w' = status_writes tid w @ [(st, p)]"
  using assms
  by (auto simp: update_task_status_def and_then_def cache_start_def external_def
        redis_setex_def redis_publish_def Let_def opt_json_def published_results_def
        status_writes_def map_filter_append)


lemma publish_result_healthy:
  assumes "\<forall>n. fl n = None"
  shows "\<exists>w'. publish_risk_analysis_result fl now tid st (Some res) None w = (Inr (), w')
     \<and> cache_started w' = cache_started w \<and> store w' = store w
     \<and> published_results tid w' = published_results tid w @ [(JStr st, res, JNull)]
     \<and> status_writes t w' = status_writes t w"
  using assms
  by (auto simp: publish_risk_analysis_result_def and_then_def producer_start_def external_def
        kafka_send_def Let_def opt_json_def published_results_def dict_get_def
        status_writes_def map_filter_append KAFKA_TOPIC_RISK_RESULTS_def)

lemma store_task_result_healthy:
  assumes "\<forall>n. fl n = None"
  shows "\<exists>w'. store_task_result fl tid res w = (Inr (), w')
     \<and> cache_started w'
     \<and> store w' = (store w)(''task:result:'' @ tid \<mapsto> JsonDumps res)
     \<and> published_results t w' = published_results t w
     \<and> status_writes t w' = status_writes t w"
  using assms
  by (auto simp: store_task_result_def and_then_def cache_start_def external_def
        redis_setex_def Let_def published_results_def status_writes_def map_filter_append)

lemma worker_cache_commitment_analysis_healthy:
  assumes "\<forall>n. fl n = None"
  shows "\<exists>w'. worker_cache_commitment_analysis fl c res ttl w = (Inr (), w')
     \<and> cache_started w'
     \<and> store w' = (store w)(''analysis:commitment:'' @ c \<mapsto> JsonDumps res)
     \<and> published_results t w' = published_results t w
     \<and> status_writes t w' = status_writes t w"
  using assms
  by (auto simp: worker_cache_commitment_analysis_def and_then_def cache_start_def external_def
        redis_setex_def Let_def published_results_def status_writes_def map_filter_append)

text \<open>
  The run of the handler when data collection and scoring succeed, the passport stage
  raises and no Redis or Kafka call fails.
\<close>

lemma handle_with_failed_passport:
  assumes healthy: "\<forall>n. faults ev n = None"
    and collected: "get_wallet_activity_summary ev (wallet_address req) ''ethereum'' = Inr summary"
    and scored: "calculate_comprehensive_risk ev (wallet_address req) summary = Inr analysis"
    and passport: "\<forall>w. cache_started w \<longrightarrow>
           fst (create_passport ev (commitment req) (wallet_address req)
                  (dict_get analysis ''risk_score'' (JInt 0)) w) = Inl e"
    and run: "handle ev req w = (r, w')"
  shows "r = Inr ()
    \<and> (\<exists>payload.
          payload = AList.update ''passport''
                      (JObj [(''status'', JStr ''generation_failed''),
                             (''error'', JStr (exn_str e))]) analysis
        \<and> map_of payload ''passport''
            = Some (JObj [(''status'', JStr ''generation_failed''), (''error'', JStr (exn_str e))])
        \<and> published_results (task_id req) w'
            = published_results (task_id req) w @ [(JStr ''completed'', JObj payload, JNull)]
        \<and> store w' (''task:result:'' @ task_id req) = Some (JsonDumps (JObj payload))
        \<and> store w' (''analysis:commitment:'' @ commitment req) = Some (JsonDumps (JObj payload)))
    \<and> store w' (''task:status:'' @ task_id req)
        = Some (JsonDumps (JObj [(''status'', JStr ''completed''), (''progress'', JInt 100),
                                 (''message'', JStr ''Analysis complete!'')]))
    \<and> status_writes (task_id req) w' = status_writes (task_id req) w @ pipeline_progress"
proof -
  let ?t = "task_id req" and ?fl = "faults ev"
  let ?rs = "dict_get analysis ''risk_score'' (JInt 0)"
  let ?payload = "AList.update ''passport''
                    (JObj [(''status'', JStr ''generation_failed''),
                           (''error'', JStr (exn_str e))]) analysis"
  obtain w1 where s1: "update_task_status ?fl ?t ''processing'' 10 (Some ''Request submitted'') w
                       = (Inr (), w1)"
    and p1: "published_results ?t w1 = published_results ?t w"
            "status_writes ?t w1 = status_writes ?t w @ [(''processing'', 10)]"
    using update_task_status_healthy [OF healthy, of ?t "''processing''" 10 "''Request submitted''" w ?t]
    by blast
  obtain w2 where s2: "update_task_status ?fl ?t ''processing'' 40
                         (Some ''Fetching blockchain data'') w1 = (Inr (), w2)"
    and p2: "published_results ?t w2 = published_results ?t w1"
            "status_writes ?t w2 = status_writes ?t w1 @ [(''processing'', 40)]"
    using update_task_status_healthy [OF healthy, of ?t "''processing''" 40 "''Fetching blockchain data''" w1 ?t]
    by blast
  obtain w3 where s3: "update_task_status ?fl ?t ''processing'' 60
                         (Some ''Calculating risk score'') w2 = (Inr (), w3)"
    and p3: "published_results ?t w3 = published_results ?t w2"
            "status_writes ?t w3 = status_writes ?t w2 @ [(''processing'', 60)]"
            "cache_started w3"
    using update_task_status_healthy [OF healthy, of ?t "''processing''" 60 "''Calculating risk score''" w2 ?t]
    by blast
  have s4: "passport_stage ev req ?rs analysis w3 = (Inr ?payload, w3)"
    using passport p3(3) by (intro passport_stage_failed) simp
  obtain w5 where s5: "update_task_status ?fl ?t ''processing'' 80
                         (Some ''Generating passport'') w3 = (Inr (), w5)"
    and p5: "published_results ?t w5 = published_results ?t w3"
            "status_writes ?t w5 = status_writes ?t w3 @ [(''processing'', 80)]"
    using update_task_status_healthy [OF healthy, of ?t "''processing''" 80 "''Generating passport''" w3 ?t]
    by blast
  obtain w6 where s6: "publish_risk_analysis_result ?fl (utcnow ev) ?t ''completed''
                         (Some (JObj ?payload)) None w5 = (Inr (), w6)"
    and p6: "published_results ?t w6
               = published_results ?t w5 @ [(JStr ''completed'', JObj ?payload, JNull)]"
            "status_writes ?t w6 = status_writes ?t w5"
    using publish_result_healthy [OF healthy, of "utcnow ev" ?t "''completed''" "JObj ?payload" w5 ?t]
    by blast
  obtain w7 where s7: "store_task_result ?fl ?t (JObj ?payload) w6 = (Inr (), w7)"
    and p7: "store w7 = (store w6)(''task:result:'' @ ?t \<mapsto> JsonDumps (JObj ?payload))"
            "published_results ?t w7 = published_results ?t w6"
            "status_writes ?t w7 = status_writes ?t w6"
    using store_task_result_healthy [OF healthy, of ?t "JObj ?payload" w6 ?t] by blast
  obtain w8 where s8: "worker_cache_commitment_analysis ?fl (commitment req) (JObj ?payload)
                         3600 w7 = (Inr (), w8)"
    and p8: "store w8 = (store w7)(''analysis:commitment:'' @ commitment req
                                    \<mapsto> JsonDumps (JObj ?payload))"
            "published_results ?t w8 = published_results ?t w7"
            "status_writes ?t w8 = status_writes ?t w7"
    using worker_cache_commitment_analysis_healthy
            [OF healthy, of "commitment req" "JObj ?payload" 3600 w7 ?t] by blast
  obtain w9 where s9: "update_task_status ?fl ?t ''completed'' 100
                         (Some ''Analysis complete!'') w8 = (Inr (), w9)"
    and p9: "store w9 = (store w8)(''task:status:'' @ ?t \<mapsto>
               JsonDumps (JObj [(''status'', JStr ''completed''), (''progress'', JInt 100),
                                (''message'', JStr ''Analysis complete!'')]))"
            "published_results ?t w9 = published_results ?t w8"
            "status_writes ?t w9 = status_writes ?t w8 @ [(''completed'', 100)]"
    using update_task_status_healthy [OF healthy, of ?t "''completed''" 100 "''Analysis complete!''" w8 ?t]
    by blast
  have body: "handle_body ev req w = (Inr (), w9)"
    unfolding handle_body_def Let_def
    by (simp add: and_then_def s1 collected s2 scored s3 s4 s5 s6 s7 s8 s9)
  then have fin: "r = Inr ()" "w' = w9"
    using run by (simp_all add: handle_def try_except_def)
  have pu: "map_of ?payload ''passport''
            = Some (JObj [(''status'', JStr ''generation_failed''), (''error'', JStr (exn_str e))])"
    by (simp add: update_conv')
  have res: "store w9 (''task:result:'' @ ?t) = Some (JsonDumps (JObj ?payload))"
    by (simp add: p9(1) p8(1) p7(1))
  have ana: "store w9 (''analysis:commitment:'' @ commitment req) = Some (JsonDumps (JObj ?payload))"
    by (simp add: p9(1) p8(1))
  have st: "store w9 (''task:status:'' @ ?t)
        = Some (JsonDumps (JObj [(''status'', JStr ''completed''), (''progress'', JInt 100),
                                 (''message'', JStr ''Analysis complete!'')]))"
    by (simp add: p9(1))
  have pub: "published_results ?t w9
              = published_results ?t w @ [(JStr ''completed'', JObj ?payload, JNull)]"
    by (simp add: p9(2) p8(2) p7(2) p6(1) p5(1) p3(1) p2(1) p1(1))
  have sw: "status_writes ?t w9 = status_writes ?t w @ pipeline_progress"
    by (simp add: p9(3) p8(3) p7(3) p6(2) p5(2) p3(2) p2(2) p1(2) pipeline_progress_def)
  show ?thesis
    using fin pu res ana st pub sw by simp
qed

subsection \<open>C5: a failed passport stage does not fail the task\<close>

text \<open>
  C5, as the code has it. Data collection and scoring succeed, the passport stage raises
  \<open>e\<close>, and no Redis or Kafka call of the handler fails. Then the handler returns
  normally; the result payload is the risk analysis with
  \<open>passport = {status: generation_failed, error: str(e)}\<close>; it is published to the
  result topic with status completed and stored under the task's result key and the
  commitment's analysis key; the task's status entry ends as completed with progress 100,
  and no failed status is written.
\<close>

theorem passport_failure_is_not_fatal:
  assumes healthy: "\<forall>n. faults ev n = None"
    and collected: "get_wallet_activity_summary ev (wallet_address req) ''ethereum'' = Inr summary"
    and scored: "calculate_comprehensive_risk ev (wallet_address req) summary = Inr analysis"
    and passport: "\<forall>w. cache_started w \<longrightarrow>
           fst (create_passport ev (commitment req) (wallet_address req)
                  (dict_get analysis ''risk_score'' (JInt 0)) w) = Inl e"
    and run: "handle ev req w = (r, w')"
  shows "r = Inr ()
    \<and> (\<exists>payload.
          payload = AList.update ''passport''
                      (JObj [(''status'', JStr ''generation_failed''),
                             (''error'', JStr (exn_str e))]) analysis
        \<and> map_of payload ''passport''
            = Some (JObj [(''status'', JStr ''generation_failed''), (''error'', JStr (exn_str e))])
        \<and> published_results (task_id req) w'
            = published_results (task_id req) w @ [(JStr ''completed'', JObj payload, JNull)]
        \<and> store w' (''task:result:'' @ task_id req) = Some (JsonDumps (JObj payload))
        \<and> store w' (''analysis:commitment:'' @ commitment req) = Some (JsonDumps (JObj payload)))
    \<and> store w' (''task:status:'' @ task_id req)
        = Some (JsonDumps (JObj [(''status'', JStr ''completed''), (''progress'', JInt 100),
                                 (''message'', JStr ''Analysis complete!'')]))
    \<and> status_writes (task_id req) w' = status_writes (task_id req) w @ pipeline_progress"
  using healthy collected scored passport run by (rule handle_with_failed_passport)

theorem passport_failure_is_not_fatal_witness:
  "fst (handle passport_down_env demo_request init_world) = Inr ()
   \<and> published_results ''t1'' (snd (handle passport_down_env demo_request init_world))
       = [(JStr ''completed'',
           JObj [(''risk_score'', JInt 2500),
                 (''passport'', JObj [(''status'', JStr ''generation_failed''),
                                      (''error'', JStr ''node down'')])],
           JNull)]
   \<and> store (snd (handle passport_down_env demo_request init_world)) ''task:status:t1''
       = Some (JsonDumps (JObj [(''status'', JStr ''completed''), (''progress'', JInt 100),
                                (''message'', JStr ''Analysis complete!'')]))"
proof -
  have h1: "\<forall>n. faults passport_down_env n = None"
    by (simp add: passport_down_env_def healthy_env_def)
  have h2: "get_wallet_activity_summary passport_down_env (wallet_address demo_request) ''ethereum''
            = Inr [(''total_transactions'', JInt 12)]"
    by (simp add: passport_down_env_def healthy_env_def)
  have h3: "calculate_comprehensive_risk passport_down_env (wallet_address demo_request)
              [(''total_transactions'', JInt 12)] = Inr [(''risk_score'', JInt 2500)]"
    by (simp add: passport_down_env_def healthy_env_def)
  have h4: "\<forall>w. cache_started w \<longrightarrow>
           fst (create_passport passport_down_env (commitment demo_request)
                  (wallet_address demo_request)
                  (dict_get [(''risk_score'', JInt 2500)] ''risk_score'' (JInt 0)) w)
           = Inl (Exception ''RuntimeError'' ''node down'')"
    by (simp add: create_passport_def raise_def passport_down_env_def healthy_env_def)
  have h5: "handle passport_down_env demo_request init_world
            = (fst (handle passport_down_env demo_request init_world),
               snd (handle passport_down_env demo_request init_world))"
    by simp
  have e: "published_results ''t1'' init_world = []"
    by (simp add: published_results_def init_world_def)
  show ?thesis
    using passport_failure_is_not_fatal [OF h1 h2 h3 h4 h5] e
    by (simp add: demo_request_def)
qed

text \<open>
  The claim as stated fails when, after the passport stage has raised, the publication of
  the result raises: the task ends FAILED.
\<close>

theorem passport_failure_then_broker_failure:
  "get_wallet_activity_summary (passport_down_env\<lparr>faults := broker_down_at 10\<rparr>)
     (wallet_address demo_request) ''ethereum'' = Inr [(''total_transactions'', JInt 12)]
   \<and> calculate_comprehensive_risk (passport_down_env\<lparr>faults := broker_down_at 10\<rparr>)
       (wallet_address demo_request) [(''total_transactions'', JInt 12)]
       = Inr [(''risk_score'', JInt 2500)]
   \<and> get_current_block (passport_down_env\<lparr>faults := broker_down_at 10\<rparr>)
       = Inl (Exception ''RuntimeError'' ''node down'')
   \<and> store (snd (handle (passport_down_env\<lparr>faults := broker_down_at 10\<rparr>)
                    demo_request init_world)) ''task:status:t1''
       = Some (JsonDumps (JObj [(''status'', JStr ''failed''), (''progress'', JInt 0),
                                (''message'', JStr ''Analysis failed: broker down'')]))
   \<and> published_results ''t1'' (snd (handle (passport_down_env\<lparr>faults := broker_down_at 10\<rparr>)
                                      demo_request init_world))
       = [(JStr ''failed'', JNull, JStr ''broker down'')]"
  by (simp add: run_defs demo_defs published_results_def KAFKA_TOPIC_RISK_RESULTS_def opt_json_def)

subsection \<open>Risk-analysis handler: the failure path\<close>

lemma handle_failure_reported:
  assumes "handle_failure ev req e w1 = (Inr (), w')"
  shows "published_results (task_id req) w'
           = published_results (task_id req) w1 @ [(JStr ''failed'', JNull, JStr (exn_str e))]"
    and "status_writes (task_id req) w' = status_writes (task_id req) w1 @ [(''failed'', 0)]"
    and "store w' (''task:status:'' @ task_id req)
           = Some (JsonDumps (JObj [(''status'', JStr ''failed''), (''progress'', JInt 0),
                                    (''message'', JStr (''Analysis failed: '' @ exn_str e))]))"
  using assms
  by (auto simp: handle_failure_def publish_risk_analysis_result_def update_task_status_def
        and_then_def producer_start_def cache_start_def external_def kafka_send_def
        redis_setex_def redis_publish_def Let_def opt_json_def dict_get_def
        published_results_def status_writes_def map_filter_append
        KAFKA_TOPIC_RISK_RESULTS_def
        split: option.splits if_splits)

lemma handle_failure_healthy:
  assumes "\<forall>n \<ge> clock w1. faults ev n = None"
  shows "fst (handle_failure ev req e w1) = Inr ()"
proof -
  have g: "\<And>n. clock w1 \<le> n \<Longrightarrow> faults ev n = None" using assms by simp
  show ?thesis
    by (simp add: handle_failure_def publish_risk_analysis_result_def update_task_status_def
          and_then_def producer_start_def cache_start_def external_def kafka_send_def
          redis_setex_def redis_publish_def Let_def g)
qed

subsection \<open>Risk-analysis handler: the passport stage\<close>

lemma published_results_passport:
  "published_results t (snd (passport_stage ev req rs ra w)) = published_results t w"
  by (auto simp: passport_stage_def create_passport_def cache_claim_data_def and_then_def
        try_except_def ret_def raise_def Let_def published_results_def map_filter_append
        split: option.splits if_splits sum.splits)

lemma status_writes_passport:
  "status_writes t (snd (passport_stage ev req rs ra w)) = status_writes t w"
  using status_neutral_passport [of ev req rs ra] by (simp add: status_neutral_def)

subsection \<open>C10: a stage failure is reported, not raised\<close>

text \<open>
  C10, as the code has it. An exception that leaves the handler's \<open>try\<close> block
  (raised by data collection, by scoring, by the publication of the result or by a status
  or cache write) is caught: the \<open>except\<close> block runs, and when it returns it has
  published a failed result carrying \<open>str(e)\<close> and written the status FAILED with
  progress 0. The handler raises only what the \<open>except\<close> block itself raises: it
  returns normally whenever no Redis or Kafka call fails from the exception on.
  An exception of passport generation is caught by the inner \<open>try\<close> instead: the
  passport stage always returns, it publishes no result and writes no status, and when
  \<open>create_passport\<close> raised \<open>e\<close> it returns the analysis with
  \<open>passport = {status: generation_failed, error: str(e)}\<close>. When that is the only
  failure of the run, the handler returns normally, the one result it publishes is the
  completed one with that payload, and the status writes are those of the pipeline,
  ending with completed and 100: no failed result and no FAILED status.
  In both cases, when the handler returns normally the consumer loop calls \<open>commit()\<close>
  in the message's iteration, and unless that call raises the committed offset of the
  partition is the one behind the message.
\<close>

theorem stage_failure_is_reported_not_raised:
  assumes "handle_body ev req w = (rb, w1)" and "handle ev req w = (r, w')"
  shows "(rb = Inr () \<longrightarrow> r = Inr () \<and> w' = w1)
    \<and> (\<forall>e. rb = Inl e \<longrightarrow>
          handle_failure ev req e w1 = (r, w')
          \<and> (r = Inr () \<longrightarrow>
                published_results (task_id req) w'
                  = published_results (task_id req) w1 @ [(JStr ''failed'', JNull, JStr (exn_str e))]
              \<and> status_writes (task_id req) w' = status_writes (task_id req) w1 @ [(''failed'', 0)]
              \<and> store w' (''task:status:'' @ task_id req)
                  = Some (JsonDumps (JObj [(''status'', JStr ''failed''), (''progress'', JInt 0),
                        (''message'', JStr (''Analysis failed: '' @ exn_str e))]))))
    \<and> ((\<forall>n \<ge> clock w1. faults ev n = None) \<longrightarrow> r = Inr ())
    \<and> (\<forall>rs ra w2.
          (\<exists>ra' w3. passport_stage ev req rs ra w2 = (Inr ra', w3)
                  \<and> published_results (task_id req) w3 = published_results (task_id req) w2
                  \<and> status_writes (task_id req) w3 = status_writes (task_id req) w2)
          \<and> (\<forall>e. fst (create_passport ev (commitment req) (wallet_address req) rs w2) = Inl e \<longrightarrow>
                 passport_stage ev req rs ra w2
                 = (Inr (AList.update ''passport''
                           (JObj [(''status'', JStr ''generation_failed''),
                                  (''error'', JStr (exn_str e))]) ra), w2)))
    \<and> (\<forall>summary analysis e.
          (\<forall>n. faults ev n = None)
          \<and> get_wallet_activity_summary ev (wallet_address req) ''ethereum'' = Inr summary
          \<and> calculate_comprehensive_risk ev (wallet_address req) summary = Inr analysis
          \<and> (\<forall>w2. cache_started w2 \<longrightarrow>
                 fst (create_passport ev (commitment req) (wallet_address req)
                        (dict_get analysis ''risk_score'' (JInt 0)) w2) = Inl e)
          \<longrightarrow> r = Inr ()
              \<and> published_results (task_id req) w'
                  = published_results (task_id req) w
                    @ [(JStr ''completed'',
                        JObj (AList.update ''passport''
                                (JObj [(''status'', JStr ''generation_failed''),
                                       (''error'', JStr (exn_str e))]) analysis),
                        JNull)]
              \<and> status_writes (task_id req) w'
                  = status_writes (task_id req) w @ pipeline_progress)
    \<and> (r = Inr () \<longrightarrow>
          (\<forall>fl msg c. msg_value msg = req \<longrightarrow>
             CommitCalled
               \<in> set (fst (consume_one request_get [(msg_topic msg, handle ev)] fl msg
                              (yielded msg c, w)))
             \<and> (fl (commit_calls c) = None \<longrightarrow>
                  committed (fst (snd (consume_one request_get [(msg_topic msg, handle ev)] fl msg
                                         (yielded msg c, w))))
                    (msg_topic msg, msg_partition msg) = Some (Suc (msg_offset msg)))))"
proof (intro conjI allI impI)
  assume "rb = Inr ()"
  then show "r = Inr ()" and "w' = w1"
    using assms by (simp_all add: handle_def try_except_def)
next
  fix e assume e: "rb = Inl e"
  then show f: "handle_failure ev req e w1 = (r, w')"
    using assms by (simp add: handle_def try_except_def)
  assume ok: "r = Inr ()"
  show "published_results (task_id req) w'
          = published_results (task_id req) w1 @ [(JStr ''failed'', JNull, JStr (exn_str e))]"
    and "status_writes (task_id req) w' = status_writes (task_id req) w1 @ [(''failed'', 0)]"
    and "store w' (''task:status:'' @ task_id req)
          = Some (JsonDumps (JObj [(''status'', JStr ''failed''), (''progress'', JInt 0),
                (''message'', JStr (''Analysis failed: '' @ exn_str e))]))"
    using handle_failure_reported [of ev req e w1 w'] f ok by simp_all
next
  assume h: "\<forall>n \<ge> clock w1. faults ev n = None"
  show "r = Inr ()"
  proof (cases rb)
    case (Inr u)
    then show ?thesis using assms by (simp add: handle_def try_except_def)
  next
    case (Inl e)
    then have "handle_failure ev req e w1 = (r, w')"
      using assms by (simp add: handle_def try_except_def)
    then show ?thesis using handle_failure_healthy [OF h, of req e] by simp
  qed
next
  fix rs ra w2
  obtain ra' w3 where st: "passport_stage ev req rs ra w2 = (Inr ra', w3)"
    using passport_stage_returns by blast
  have "published_results (task_id req) w3 = published_results (task_id req) w2"
    using published_results_passport [of "task_id req" ev req rs ra w2] st by simp
  moreover have "status_writes (task_id req) w3 = status_writes (task_id req) w2"
    using status_writes_passport [of "task_id req" ev req rs ra w2] st by simp
  ultimately show "\<exists>ra' w3. passport_stage ev req rs ra w2 = (Inr ra', w3)
                  \<and> published_results (task_id req) w3 = published_results (task_id req) w2
                  \<and> status_writes (task_id req) w3 = status_writes (task_id req) w2"
    using st by blast
next
  fix rs ra w2 e
  assume "fst (create_passport ev (commitment req) (wallet_address req) rs w2) = Inl e"
  then show "passport_stage ev req rs ra w2
             = (Inr (AList.update ''passport''
                       (JObj [(''status'', JStr ''generation_failed''),
                              (''error'', JStr (exn_str e))]) ra), w2)"
    by (rule passport_stage_failed)
next
  fix summary analysis e
  assume h: "(\<forall>n. faults ev n = None)
          \<and> get_wallet_activity_summary ev (wallet_address req) ''ethereum'' = Inr summary
          \<and> calculate_comprehensive_risk ev (wallet_address req) summary = Inr analysis
          \<and> (\<forall>w2. cache_started w2 \<longrightarrow>
                 fst (create_passport ev (commitment req) (wallet_address req)
                        (dict_get analysis ''risk_score'' (JInt 0)) w2) = Inl e)"
  have run: "r = Inr ()
    \<and> (\<exists>payload.
          payload = AList.update ''passport''
                      (JObj [(''status'', JStr ''generation_failed''),
                             (''error'', JStr (exn_str e))]) analysis
        \<and> map_of payload ''passport''
            = Some (JObj [(''status'', JStr ''generation_failed''), (''error'', JStr (exn_str e))])
        \<and> published_results (task_id req) w'
            = published_results (task_id req) w @ [(JStr ''completed'', JObj payload, JNull)]
        \<and> store w' (''task:result:'' @ task_id req) = Some (JsonDumps (JObj payload))
        \<and> store w' (''analysis:commitment:'' @ commitment req) = Some (JsonDumps (JObj payload)))
    \<and> store w' (''task:status:'' @ task_id req)
        = Some (JsonDumps (JObj [(''status'', JStr ''completed''), (''progress'', JInt 100),
                                 (''message'', JStr ''Analysis complete!'')]))
    \<and> status_writes (task_id req) w' = status_writes (task_id req) w @ pipeline_progress"
  proof (rule handle_with_failed_passport)
    show "\<forall>n. faults ev n = None" using h by simp
    show "get_wallet_activity_summary ev (wallet_address req) ''ethereum'' = Inr summary"
      using h by simp
    show "calculate_comprehensive_risk ev (wallet_address req) summary = Inr analysis"
      using h by simp
    show "\<forall>w2. cache_started w2 \<longrightarrow>
            fst (create_passport ev (commitment req) (wallet_address req)
                   (dict_get analysis ''risk_score'' (JInt 0)) w2) = Inl e"
      using h by simp
    show "handle ev req w = (r, w')" by (rule assms(2))
  qed
  from run show "r = Inr ()" by simp
  from run show "published_results (task_id req) w'
                  = published_results (task_id req) w
                    @ [(JStr ''completed'',
                        JObj (AList.update ''passport''
                                (JObj [(''status'', JStr ''generation_failed''),
                                       (''error'', JStr (exn_str e))]) analysis),
                        JNull)]"
    by simp
  from run show "status_writes (task_id req) w'
                  = status_writes (task_id req) w @ pipeline_progress"
    by simp
next
  fix fl and msg :: "request kafka_msg" and c
  assume "r = Inr ()" and "msg_value msg = req"
  then have ret: "handle ev (msg_value msg) w = (Inr (), w')" using assms(2) by simp
  have got: "request_get (msg_value msg) ''task_id'' = Inr (JStr (task_id (msg_value msg)))"
    by (simp add: request_get_def request_dict_def)
  show "CommitCalled
          \<in> set (fst (consume_one request_get [(msg_topic msg, handle ev)] fl msg
                         (yielded msg c, w)))"
    using ret got by (rule commit_after_return(1))
  assume "fl (commit_calls c) = None"
  with ret got
  show "committed (fst (snd (consume_one request_get [(msg_topic msg, handle ev)] fl msg
                               (yielded msg c, w))))
          (msg_topic msg, msg_partition msg) = Some (Suc (msg_offset msg))"
    by (rule commit_after_return(2))
qed

theorem stage_failure_is_reported_not_raised_witness:
  "fst (handle_body indexer_down_env demo_request init_world)
     = Inl (Exception ''ConnectionError'' ''rpc unreachable'')
   \<and> fst (handle indexer_down_env demo_request init_world) = Inr ()
   \<and> published_results ''t1'' (snd (handle indexer_down_env demo_request init_world))
       = [(JStr ''failed'', JNull, JStr ''rpc unreachable'')]
   \<and> store (snd (handle indexer_down_env demo_request init_world)) ''task:status:t1''
       = Some (JsonDumps (JObj [(''status'', JStr ''failed''), (''progress'', JInt 0),
                                (''message'', JStr ''Analysis failed: rpc unreachable'')]))
   \<and> fst (handle passport_down_env demo_request init_world) = Inr ()
   \<and> published_results ''t1'' (snd (handle passport_down_env demo_request init_world))
       = [(JStr ''completed'',
           JObj [(''risk_score'', JInt 2500),
                 (''passport'', JObj [(''status'', JStr ''generation_failed''),
                                      (''error'', JStr ''node down'')])],
           JNull)]
   \<and> status_writes ''t1'' (snd (handle passport_down_env demo_request init_world))
       = pipeline_progress
   \<and> CommitCalled
       \<in> set (fst (consume_one request_get
                      [(''risk-analysis-requests'', handle passport_down_env)] (\<lambda>n. None)
                      (request_msg 7 demo_request)
                      (yielded (request_msg 7 demo_request) init_consumer, init_world)))"
proof -
  let ?e = "Exception ''ConnectionError'' ''rpc unreachable''"
  let ?w1 = "snd (handle_body indexer_down_env demo_request init_world)"
  have b: "fst (handle_body indexer_down_env demo_request init_world) = Inl ?e"
    by (simp add: run_defs demo_defs)
  have p0: "published_results ''t1'' ?w1 = []"
    by (simp add: run_defs demo_defs published_results_def)
  have h1: "handle_body indexer_down_env demo_request init_world = (Inl ?e, ?w1)"
    using b by (simp add: prod_eq_iff)
  have h2: "handle indexer_down_env demo_request init_world
            = (fst (handle indexer_down_env demo_request init_world),
               snd (handle indexer_down_env demo_request init_world))"
    by simp
  have fl: "\<forall>n \<ge> clock ?w1. faults indexer_down_env n = None"
    by (simp add: indexer_down_env_def healthy_env_def)
  have reported: "fst (handle indexer_down_env demo_request init_world) = Inr ()
   \<and> published_results ''t1'' (snd (handle indexer_down_env demo_request init_world))
       = [(JStr ''failed'', JNull, JStr ''rpc unreachable'')]
   \<and> store (snd (handle indexer_down_env demo_request init_world)) ''task:status:t1''
       = Some (JsonDumps (JObj [(''status'', JStr ''failed''), (''progress'', JInt 0),
                                (''message'', JStr ''Analysis failed: rpc unreachable'')]))"
    using stage_failure_is_reported_not_raised [OF h1 h2] fl b p0
    by (simp add: demo_request_def)
  have g1: "handle_body passport_down_env demo_request init_world
            = (fst (handle_body passport_down_env demo_request init_world),
               snd (handle_body passport_down_env demo_request init_world))"
    by simp
  have g2: "handle passport_down_env demo_request init_world
            = (fst (handle passport_down_env demo_request init_world),
               snd (handle passport_down_env demo_request init_world))"
    by simp
  have k1: "\<forall>n. faults passport_down_env n = None"
    by (simp add: passport_down_env_def healthy_env_def)
  have k2: "get_wallet_activity_summary passport_down_env (wallet_address demo_request) ''ethereum''
            = Inr [(''total_transactions'', JInt 12)]"
    by (simp add: passport_down_env_def healthy_env_def)
  have k3: "calculate_comprehensive_risk passport_down_env (wallet_address demo_request)
              [(''total_transactions'', JInt 12)] = Inr [(''risk_score'', JInt 2500)]"
    by (simp add: passport_down_env_def healthy_env_def)
  have k4: "\<forall>w. cache_started w \<longrightarrow>
           fst (create_passport passport_down_env (commitment demo_request)
                  (wallet_address demo_request)
                  (dict_get [(''risk_score'', JInt 2500)] ''risk_score'' (JInt 0)) w)
           = Inl (Exception ''RuntimeError'' ''node down'')"
    by (simp add: create_passport_def raise_def passport_down_env_def healthy_env_def)
  have e0: "published_results ''t1'' init_world = []" "status_writes ''t1'' init_world = []"
    by (simp_all add: published_results_def status_writes_def init_world_def)
  have t1: "task_id demo_request = ''t1''" by (simp add: demo_request_def)
  have v: "msg_value (request_msg 7 demo_request) = demo_request"
          "msg_topic (request_msg 7 demo_request) = ''risk-analysis-requests''"
    by (simp_all add: request_msg_def)
  note all = stage_failure_is_reported_not_raised [OF g1 g2]
  from all have passport_run:
    "(\<forall>summary analysis e.
          (\<forall>n. faults passport_down_env n = None)
          \<and> get_wallet_activity_summary passport_down_env (wallet_address demo_request)
                ''ethereum'' = Inr summary
          \<and> calculate_comprehensive_risk passport_down_env (wallet_address demo_request) summary
              = Inr analysis
          \<and> (\<forall>w2. cache_started w2 \<longrightarrow>
                 fst (create_passport passport_down_env (commitment demo_request)
                        (wallet_address demo_request)
                        (dict_get analysis ''risk_score'' (JInt 0)) w2) = Inl e)
          \<longrightarrow> fst (handle passport_down_env demo_request init_world) = Inr ()
              \<and> published_results (task_id demo_request)
                    (snd (handle passport_down_env demo_request init_world))
                  = published_results (task_id demo_request) init_world
                    @ [(JStr ''completed'',
                        JObj (AList.update ''passport''
                                (JObj [(''status'', JStr ''generation_failed''),
                                       (''error'', JStr (exn_str e))]) analysis),
                        JNull)]
              \<and> status_writes (task_id demo_request)
                    (snd (handle passport_down_env demo_request init_world))
                  = status_writes (task_id demo_request) init_world @ pipeline_progress)"
    by blast
  have completed: "fst (handle passport_down_env demo_request init_world) = Inr ()
     \<and> published_results ''t1'' (snd (handle passport_down_env demo_request init_world))
       = [(JStr ''completed'',
           JObj [(''risk_score'', JInt 2500),
                 (''passport'', JObj [(''status'', JStr ''generation_failed''),
                                      (''error'', JStr ''node down'')])],
           JNull)]
     \<and> status_writes ''t1'' (snd (handle passport_down_env demo_request init_world))
       = pipeline_progress"
    using passport_run [rule_format, of "[(''total_transactions'', JInt 12)]"
            "[(''risk_score'', JInt 2500)]" "Exception ''RuntimeError'' ''node down''"]
          k1 k2 k3 k4 e0 t1
    by simp
  from all completed have
    "\<forall>fl msg c. msg_value msg = demo_request \<longrightarrow>
       CommitCalled
         \<in> set (fst (consume_one request_get [(msg_topic msg, handle passport_down_env)] fl msg
                        (yielded msg c, init_world)))"
    by blast
  then have committed: "CommitCalled
       \<in> set (fst (consume_one request_get
                      [(''risk-analysis-requests'', handle passport_down_env)] (\<lambda>n. None)
                      (request_msg 7 demo_request)
                      (yielded (request_msg 7 demo_request) init_consumer, init_world)))"
    using v by metis
  show ?thesis
    using b reported completed committed by simp
qed

text \<open>
  The claim as stated fails for the passport stage: its exception is not converted into a
  failed result and a FAILED status; the result is published as completed, with the
  exception recorded in its payload, and the task is marked as completed.
\<close>

theorem passport_exception_not_reported_as_failure:
  "fst (create_passport passport_down_env (commitment demo_request) (wallet_address demo_request)
          (JInt 2500) (init_world\<lparr>cache_started := True\<rparr>))
     = Inl (Exception ''RuntimeError'' ''node down'')
   \<and> fst (handle passport_down_env demo_request init_world) = Inr ()
   \<and> published_results ''t1'' (snd (handle passport_down_env demo_request init_world))
       = [(JStr ''completed'',
           JObj [(''risk_score'', JInt 2500),
                 (''passport'', JObj [(''status'', JStr ''generation_failed''),
                                      (''error'', JStr ''node down'')])],
           JNull)]
   \<and> status_writes ''t1'' (snd (handle passport_down_env demo_request init_world))
       = pipeline_progress"
  by (simp add: run_defs demo_defs published_results_def status_writes_def
        KAFKA_TOPIC_RISK_RESULTS_def pipeline_progress_def opt_json_def)

subsection \<open>C6: a failed message and the next commit\<close>

text \<open>
  C6. The claim: the offset of a message is committed if and only if its handler returned
  without raising, and a message whose handler raised gets no commit and stays eligible for
  redelivery; the loop's own comment says "Don't commit offset on error - message will
  be reprocessed". The code does not keep this. \<open>commit()\<close> is called without offsets
  after the next message that is processed, and it commits the position of the partition,
  which lies behind the failed message. In the run below Redis is unreachable while the
  request at offset 7 is handled, so its handler raises and no commit is called in its
  iteration; the request at offset 8 is handled and the commit that follows sets the
  committed offset of the partition to 9. The request at offset 7 is then committed
  although its handler raised, and it is not eligible for redelivery.
\<close>

theorem failed_message_committed_by_next_success:
  "fst outage_run = Inr ()
   \<and> fst (snd outage_run)
     = [(request_msg 7 demo_request,
           [HandlerRaised (Exception ''ConnectionError'' ''redis unreachable''),
            ProcessingFailed (Exception ''ConnectionError'' ''redis unreachable'')]),
        (request_msg 8 second_request, [HandlerReturned, CommitCalled])]
   \<and> committed (fst (snd (snd outage_run))) (''risk-analysis-requests'', 0) = Some 9
   \<and> \<not> eligible_for_redelivery (fst (snd (snd outage_run))) (request_msg 7 demo_request)"
proof -
  let ?e = "Exception ''ConnectionError'' ''redis unreachable''"
  have first: "fst (handle redis_outage_env demo_request init_world) = Inl ?e"
    by (simp add: run_defs demo_defs redis_outage_env_def)
  have second: "fst (handle redis_outage_env second_request
                       (snd (handle redis_outage_env demo_request init_world))) = Inr ()"
    by (simp add: run_defs demo_defs redis_outage_env_def second_request_def)
  obtain w1 where h1: "handle redis_outage_env demo_request init_world = (Inl ?e, w1)"
    using first by (cases "handle redis_outage_env demo_request init_world") simp
  obtain w2 where h2: "handle redis_outage_env second_request w1 = (Inr (), w2)"
    using second h1 by (cases "handle redis_outage_env second_request w1") simp
  have run: "outage_run
             = (Inr (),
                [(request_msg 7 demo_request, [HandlerRaised ?e, ProcessingFailed ?e]),
                 (request_msg 8 second_request, [HandlerReturned, CommitCalled])],
                \<lparr>position = [(''risk-analysis-requests'', 0) \<mapsto> 9],
                 committed = [(''risk-analysis-requests'', 0) \<mapsto> 9],
                 commit_calls = 1\<rparr>, w2)"
    by (simp add: outage_run_def start_def consume_one_def process_message_def commit_def
          yielded_def init_consumer_def request_msg_def request_get_def request_dict_def
          KAFKA_TOPIC_RISK_REQUESTS_def h1 h2)
  show ?thesis
    unfolding run by (simp add: eligible_for_redelivery_def request_msg_def)
qed

subsection \<open>Analysis endpoint: auxiliary facts\<close>

lemma get_cached_commitment_analysis_hit:
  assumes "\<forall>n. fl n = None"
    and "store w (''analysis:commitment:'' @ c) = Some v"
    and "text_truthy v" and "json_loads dec v = Inr j"
  shows "\<exists>w'. get_cached_commitment_analysis fl dec c w = (Inr (Some j), w')
              \<and> effects w' = effects w \<and> store w' = store w"
  using assms
  by (auto simp: get_cached_commitment_analysis_def and_then_def cache_start_def external_def
        redis_get_def ret_def raise_def)

lemma demo_submission_verified:
  "verify_ownership (current_time demo_api) (recover_message demo_api)
     (rq_wallet_address demo_submission) (rq_signature demo_submission)
     (rq_message demo_submission) (rq_timestamp demo_submission) = Inr True"
  by (simp add: verify_ownership_def verify_timestamp_def verify_message_format_def
        recover_signer_def demo_api_def demo_submission_def demo_wallet_def
        MAX_SIGNATURE_AGE_SECONDS_def lower_def char_lower_def str_int_def str_nat.simps Let_def)

subsection \<open>C7: a cache hit is answered inline and leaves no trace\<close>

text \<open>
  C7, as the code has it. A submission passes the ownership check, does not force a
  refresh, Redis is reachable, and the commitment's analysis entry decodes to a dictionary
  that is not empty. Then the endpoint returns task id "cached", status COMPLETED,
  progress 100 and the cached payload; it writes nothing to Redis and sends nothing to
  Kafka (no queue publish, no status write, no task-commitment link). A second verified
  submission of the same commitment gets the identical response, and still nothing has
  been written or sent.
\<close>

theorem cache_hit_is_idempotent:
  assumes reachable: "\<forall>n. api_faults api n = None"
    and first: "verify_ownership (current_time api) (recover_message api)
                  (rq_wallet_address rq) (rq_signature rq) (rq_message rq) (rq_timestamp rq)
                = Inr True"
    and second: "verify_ownership (current_time api') (recover_message api')
                  (rq_wallet_address rq') (rq_signature rq') (rq_message rq') (rq_timestamp rq')
                = Inr True"
    and same: "rq_commitment rq' = rq_commitment rq" "api_faults api' = api_faults api"
              "decode_text api' = decode_text api"
    and no_refresh: "\<not> rq_force_refresh rq" "\<not> rq_force_refresh rq'"
    and entry: "store w (''analysis:commitment:'' @ rq_commitment rq) = Some v"
               "text_truthy v" "json_loads (decode_text api) v = Inr (JObj payload)"
    and nonempty: "payload \<noteq> []"
  shows "\<exists>w1 w2.
           analyze_wallet api rq w
             = (Inr \<lparr>tr_task_id = ''cached'', tr_status = COMPLETED, tr_progress = 100,
                     tr_message = Some ''Returned from cache'', tr_result = Some payload,
                     tr_error = None\<rparr>, w1)
         \<and> effects w1 = effects w \<and> store w1 = store w
         \<and> analyze_wallet api' rq' w1
             = (Inr \<lparr>tr_task_id = ''cached'', tr_status = COMPLETED, tr_progress = 100,
                     tr_message = Some ''Returned from cache'', tr_result = Some payload,
                     tr_error = None\<rparr>, w2)
         \<and> effects w2 = effects w \<and> store w2 = store w"
proof -
  let ?hit = "\<lparr>tr_task_id = ''cached'', tr_status = COMPLETED, tr_progress = 100,
               tr_message = Some ''Returned from cache'', tr_result = Some payload,
               tr_error = None\<rparr>"
  obtain w1 where g1: "get_cached_commitment_analysis (api_faults api) (decode_text api)
                         (rq_commitment rq) w = (Inr (Some (JObj payload)), w1)"
    and k1: "effects w1 = effects w" "store w1 = store w"
    using get_cached_commitment_analysis_hit [OF reachable entry] by blast
  have a1: "analyze_wallet api rq w = (Inr ?hit, w1)"
    using first no_refresh(1) g1 nonempty
    by (simp add: analyze_wallet_def try_except_def and_then_def cached_response_def)
  have entry1: "store w1 (''analysis:commitment:'' @ rq_commitment rq) = Some v"
    using entry(1) k1(2) by simp
  obtain w2 where g2: "get_cached_commitment_analysis (api_faults api) (decode_text api)
                         (rq_commitment rq) w1 = (Inr (Some (JObj payload)), w2)"
    and k2: "effects w2 = effects w1" "store w2 = store w1"
    using get_cached_commitment_analysis_hit [OF reachable entry1 entry(2,3)] by blast
  have a2: "analyze_wallet api' rq' w1 = (Inr ?hit, w2)"
    using second no_refresh(2) g2 nonempty same
    by (simp add: analyze_wallet_def try_except_def and_then_def cached_response_def)
  show ?thesis
    using a1 a2 k1 k2 by simp
qed


theorem cache_hit_is_idempotent_witness:
  "fst (analyze_wallet demo_api demo_submission
          (world_with_analysis (JObj [(''risk_score'', JInt 2500)])))
     = Inr \<lparr>tr_task_id = ''cached'', tr_status = COMPLETED, tr_progress = 100,
            tr_message = Some ''Returned from cache'',
            tr_result = Some [(''risk_score'', JInt 2500)], tr_error = None\<rparr>
   \<and> effects (snd (analyze_wallet demo_api demo_submission
                     (world_with_analysis (JObj [(''risk_score'', JInt 2500)])))) = []"
proof -
  have h1: "\<forall>n. api_faults demo_api n = None" by (simp add: demo_api_def)
  have h2: "store (world_with_analysis (JObj [(''risk_score'', JInt 2500)]))
              (''analysis:commitment:'' @ rq_commitment demo_submission)
            = Some (JsonDumps (JObj [(''risk_score'', JInt 2500)]))"
    by (simp add: world_with_analysis_def demo_submission_def)
  have h3: "\<not> rq_force_refresh demo_submission" by (simp add: demo_submission_def)
  have h4: "json_loads (decode_text demo_api) (JsonDumps (JObj [(''risk_score'', JInt 2500)]))
            = Inr (JObj [(''risk_score'', JInt 2500)])"
    by simp
  have e0: "effects (world_with_analysis (JObj [(''risk_score'', JInt 2500)])) = []"
    by (simp add: world_with_analysis_def init_world_def)
  show ?thesis
    using cache_hit_is_idempotent [OF h1 demo_submission_verified demo_submission_verified
            refl refl refl h3 h3 h2 _ h4] e0
    by auto
qed

text \<open>
  The claim as stated fails at three submissions whose commitment has a cached analysis
  entry. When the entry is the empty dictionary, \<open>if cached:\<close> is false for it and
  the submission is published to the queue. When reading the entry times out, the
  endpoint answers with status 500. When the signature is older than five minutes, the
  endpoint answers with status 401 before it looks at the cache.
\<close>

theorem cached_entry_without_cached_response:
  "store (world_with_analysis (JObj [])) (''analysis:commitment:'' @ rq_commitment demo_submission)
     = Some (JsonDumps (JObj []))
   \<and> fst (analyze_wallet demo_api demo_submission (world_with_analysis (JObj [])))
     = Inr \<lparr>tr_task_id = ''3f0c'', tr_status = PENDING, tr_progress = 0,
            tr_message = Some ''Analysis request submitted successfully. Use task_id to poll for results.'',
            tr_result = None, tr_error = None\<rparr>
   \<and> kafka_sends (snd (analyze_wallet demo_api demo_submission (world_with_analysis (JObj []))))
     = [(''risk-analysis-requests'', Some ''0xc0ffee'')]
   \<and> written_keys (snd (analyze_wallet demo_api demo_submission (world_with_analysis (JObj []))))
     = [''task:status:3f0c'', ''task:commitment:3f0c'', ''commitment:task:0xc0ffee'']
   \<and> fst (analyze_wallet redis_timeout_api demo_submission
            (world_with_analysis (JObj [(''risk_score'', JInt 2500)])))
     = Inl (HTTPException 500 ''Internal server error: Timeout reading from socket'')
   \<and> fst (analyze_wallet demo_api stale_submission
            (world_with_analysis (JObj [(''risk_score'', JInt 2500)])))
     = Inl (HTTPException 401
         ''Signature has expired. Please sign a new message. (Age: 10100s, Max: 300s)'')"
proof -
  have run: "analyze_wallet demo_api demo_submission (world_with_analysis (JObj []))
             = submit_analysis demo_api demo_submission
                 ((world_with_analysis (JObj []))\<lparr>clock := 2, cache_started := True\<rparr>)"
    using demo_submission_verified
    by (simp add: analyze_wallet_def try_except_def and_then_def
          get_cached_commitment_analysis_def cache_start_def external_def redis_get_def
          ret_def raise_def demo_api_def demo_submission_def world_with_analysis_def
          init_world_def submit_analysis_def publish_risk_analysis_request_def
          set_task_status_def link_task_to_commitment_def publish_status_update_def
          producer_start_def publisher_start_def kafka_send_def redis_setex_def
          redis_publish_def Let_def)
  have miss: "store (world_with_analysis (JObj [])) (''analysis:commitment:'' @ rq_commitment demo_submission)
     = Some (JsonDumps (JObj []))
   \<and> fst (analyze_wallet demo_api demo_submission (world_with_analysis (JObj [])))
     = Inr \<lparr>tr_task_id = ''3f0c'', tr_status = PENDING, tr_progress = 0,
            tr_message = Some ''Analysis request submitted successfully. Use task_id to poll for results.'',
            tr_result = None, tr_error = None\<rparr>
   \<and> kafka_sends (snd (analyze_wallet demo_api demo_submission (world_with_analysis (JObj []))))
     = [(''risk-analysis-requests'', Some ''0xc0ffee'')]
   \<and> written_keys (snd (analyze_wallet demo_api demo_submission (world_with_analysis (JObj []))))
     = [''task:status:3f0c'', ''task:commitment:3f0c'', ''commitment:task:0xc0ffee'']"
    unfolding run
    by (simp add: submit_analysis_def publish_risk_analysis_request_def
          set_task_status_def link_task_to_commitment_def publish_status_update_def
          and_then_def try_except_def ret_def cache_start_def external_def
          producer_start_def publisher_start_def kafka_send_def redis_setex_def
          redis_publish_def Let_def demo_api_def demo_submission_def world_with_analysis_def
          init_world_def kafka_sends_def written_keys_def KAFKA_TOPIC_RISK_REQUESTS_def)
  have verified: "verify_ownership (current_time redis_timeout_api)
     (recover_message redis_timeout_api)
     (rq_wallet_address demo_submission) (rq_signature demo_submission)
     (rq_message demo_submission) (rq_timestamp demo_submission) = Inr True"
    using demo_submission_verified by (simp add: redis_timeout_api_def)
  have timeout: "fst (analyze_wallet redis_timeout_api demo_submission
            (world_with_analysis (JObj [(''risk_score'', JInt 2500)])))
     = Inl (HTTPException 500 ''Internal server error: Timeout reading from socket'')"
    using verified
    by (simp add: analyze_wallet_def try_except_def and_then_def
          get_cached_commitment_analysis_def cache_start_def external_def redis_get_def
          ret_def raise_def redis_timeout_api_def demo_api_def demo_submission_def
          world_with_analysis_def init_world_def)
  have stale: "fst (analyze_wallet demo_api stale_submission
            (world_with_analysis (JObj [(''risk_score'', JInt 2500)])))
     = Inl (HTTPException 401
         ''Signature has expired. Please sign a new message. (Age: 10100s, Max: 300s)'')"
    by (simp add: analyze_wallet_def try_except_def and_then_def raise_def
          verify_ownership_def verify_timestamp_def MAX_SIGNATURE_AGE_SECONDS_def
          HTTP_401_UNAUTHORIZED_def stale_submission_def demo_api_def demo_submission_def
          str_int_def str_nat.simps Let_def)
  show ?thesis
    using miss timeout stale by simp
qed

subsection \<open>C3: a failed status publish and the status write\<close>

text \<open>
  In the API tier a status write that raises has raised before writing: the publish is
  inside a \<open>try\<close>, so its failure never fails \<open>set_task_status\<close>.
\<close>

lemma set_task_status_fails_before_write:
  assumes "set_task_status fl tid st p msg ttl w = (Inl e, w')"
  shows "effects w' = effects w" and "store w' = store w"
  using assms
  by (auto simp: set_task_status_def publish_status_update_def and_then_def try_except_def
        ret_def cache_start_def publisher_start_def external_def redis_setex_def
        redis_publish_def Let_def split: option.splits if_splits)

text \<open>
  C3. Redis accepts the status write and then refuses the publish. The API tier's
  \<open>set_task_status\<close> has written the entry and returns normally. The worker's
  \<open>update_task_status\<close> has written the same entry but raises the publish's
  exception: the status write fails because of the publish failure.
\<close>

theorem publish_failure_fails_worker_status_write:
  "fst (update_task_status (pubsub_down_from 2) ''t1'' ''processing'' 10
          (Some ''Request submitted'') init_world)
     = Inl (Exception ''ConnectionError'' ''pubsub down'')
   \<and> store (snd (update_task_status (pubsub_down_from 2) ''t1'' ''processing'' 10
                   (Some ''Request submitted'') init_world)) ''task:status:t1''
     = Some (JsonDumps (JObj [(''status'', JStr ''processing''), (''progress'', JInt 10),
                              (''message'', JStr ''Request submitted'')]))
   \<and> fst (set_task_status (pubsub_down_from 2) ''t1'' ''processing'' 10
            (Some ''Request submitted'') 3600 init_world)
     = Inr ()
   \<and> store (snd (set_task_status (pubsub_down_from 2) ''t1'' ''processing'' 10
                   (Some ''Request submitted'') 3600 init_world)) ''task:status:t1''
     = Some (JsonDumps (JObj [(''status'', JStr ''processing''), (''progress'', JInt 10),
                              (''message'', JStr ''Request submitted'')]))"
  by (simp add: update_task_status_def set_task_status_def publish_status_update_def
        and_then_def try_except_def ret_def cache_start_def publisher_start_def external_def
        redis_setex_def redis_publish_def Let_def pubsub_down_from_def init_world_def
        opt_json_def str_truthy_def)

subsection \<open>C1: cache keys made from the wallet address\<close>

text \<open>
  C1. The API tier's cache operation \<open>cache_wallet_analysis\<close> writes the analysis
  under the key \<open>analysis:wallet:\<close> followed by the lower-cased wallet address. In
  the worker, every run of the risk-analysis handler in which passport creation succeeds
  writes, besides the keys made from the task identifier and the commitment, the key
  \<open>passport:claim:\<close> followed by the lower-cased wallet address.
\<close>

theorem wallet_address_used_as_cache_key:
  "written_keys (snd (cache_wallet_analysis (\<lambda>n. None) demo_wallet
                        (JObj [(''risk_score'', JInt 2500)]) None init_world))
     = [''analysis:wallet:0x742d35cc6634c0532925a3b844bc9e7595f0beb0'']
   \<and> written_keys (snd (handle healthy_env demo_request init_world))
     = [''task:status:t1'', ''task:status:t1'', ''task:status:t1'', ''passport:claim:0xabcd12'',
        ''task:status:t1'', ''task:result:t1'', ''analysis:commitment:0xc0ffee'',
        ''task:status:t1'']"
  by (simp add: cache_wallet_analysis_def run_defs demo_defs written_keys_def demo_wallet_def
        lower_def char_lower_def)

end
